theory Spec2Isabelle
  imports Main
begin

section \<open>Values, exceptions and the persistent records\<close>

text \<open>
  The two queue workers of the broker, \<^verbatim>\<open>JobSubmitWorker\<close> (job_submit_worker.py) and
  \<^verbatim>\<open>JobStatusWorker\<close> (job_status_worker.py), are embedded as state transformers that
  may raise: a call takes the worker's state and returns either an exception or a value,
  together with the state reached. The state holds the worker's own fields, the
  collections of the database and the trace of every effect on the database, the HPC
  and the message channel, in the order in which they happened.
\<close>

text \<open>
  Python exceptions. Every constructor is a subclass of \<^verbatim>\<open>Exception\<close>, so
  \<^verbatim>\<open>except Exception\<close> catches all of them; \<^verbatim>\<open>ValueError\<close> also stands for its
  subclasses (a JSON decode error is one).
\<close>

datatype exn = ValueError | RuntimeError | KeyError | TypeError | OtherException

text \<open>
  The values a decoded JSON message carries in its fields, as far as the workers look at
  them: \<^verbatim>\<open>None\<close>, an integer or a string.
\<close>

datatype jval = JNull | JInt int | JStr string

text \<open>
  Modelled from the spec: the enumerations \<^verbatim>\<open>StateJob\<close> and \<^verbatim>\<open>StateWorkspace\<close> of
  \<^verbatim>\<open>operandi_utils.constants\<close> are not part of the sources; their members are those the
  workers use and those of section 4.1 of the specification. Both enumerations have
  members \<^verbatim>\<open>QUEUED\<close>, \<^verbatim>\<open>PENDING\<close> and the two transferring states, so the members carry
  the prefix of their enumeration here.
\<close>

datatype StateJob =
  JOB_QUEUED | JOB_TRANSFERRING_TO_HPC | JOB_PENDING | JOB_RUNNING
  | JOB_TRANSFERRING_FROM_HPC | JOB_SUCCESS | JOB_FAILED

datatype StateWorkspace =
  WS_QUEUED | WS_TRANSFERRING_TO_HPC | WS_PENDING | WS_TRANSFERRING_FROM_HPC | WS_READY

record DBWorkflowJob =
  job_id :: string
  job_workspace_id :: string
  job_dir :: string
  job_state :: StateJob

record DBWorkspace =
  workspace_id :: string
  user_id :: string
  workspace_dir :: string
  workspace_mets_path :: string
  mets_basename :: string
  pages_amount :: int
  file_groups :: "string list"
  state :: StateWorkspace

record DBWorkflow =
  workflow_id :: string
  workflow_script_path :: string
  uses_mets_server :: bool
  executable_steps :: "string list"

record DBHPCSlurmJob =
  hpc_user_id :: jval
  workflow_job_id :: jval
  hpc_slurm_job_id :: string
  hpc_slurm_job_state :: string
  hpc_batch_script_path :: string
  hpc_slurm_workspace_path :: string

record DBProcessingStats =
  stats_user_id :: string
  pages_succeed :: int
  pages_failed :: int

text \<open>
  Every effect of a worker outside its own fields: a committed database write, a
  completed HPC call, an acknowledgement (\<^verbatim>\<open>ch.basic_ack\<close> on the success path,
  \<^verbatim>\<open>rmq_consumer.ack_message\<close> on the failure path) and the disconnect.
\<close>

datatype event =
  Db_update_workflow_job string StateJob
  | Db_update_workspace string StateWorkspace "string list option"
  | Db_update_hpc_slurm_job jval string
  | Db_create_hpc_slurm_job jval string
  | Db_increase_processing_stats string int int
  | Hpc_download_slurm_job_log_file string string
  | Hpc_get_and_unpack_slurm_workspace string string
  | Hpc_pack_and_put_slurm_workspace string jval string
  | Hpc_trigger_slurm_job jval string
  | Basic_ack nat
  | Ack_message "nat option"
  | Disconnect
  | Exit int

record world =
  store_up :: bool
  workflow_jobs :: "DBWorkflowJob list"
  workspaces :: "DBWorkspace list"
  workflows :: "DBWorkflow list"
  hpc_slurm_jobs :: "DBHPCSlurmJob list"
  processing_stats :: "DBProcessingStats list"
  trace :: "event list"

text \<open>
  The fields both worker classes set in \<^verbatim>\<open>__init__\<close> and change while they handle a
  message; \<^verbatim>\<open>JobSubmitWorker\<close> has three more. \<^verbatim>\<open>None\<close> in an identifier field is
  \<open>JNull\<close>.
\<close>

record worker_self = world +
  test_sbatch :: bool
  current_message_delivery_tag :: "nat option"
  current_message_job_id :: jval
  has_consumed_message :: bool

record JobSubmitWorker = worker_self +
  current_message_user_id :: jval
  current_message_ws_id :: jval
  current_message_wf_id :: jval

type_synonym JobStatusWorker = worker_self

section \<open>Computations that change the state and may raise\<close>

type_synonym ('s, 'a) m = "'s \<Rightarrow> (exn + 'a) \<times> 's"

definition returnE :: "'a \<Rightarrow> ('s, 'a) m" where
  "returnE a s = (Inr a, s)"

definition raiseE :: "exn \<Rightarrow> ('s, 'a) m" where
  "raiseE e s = (Inl e, s)"

definition bindE :: "('s, 'a) m \<Rightarrow> ('a \<Rightarrow> ('s, 'b) m) \<Rightarrow> ('s, 'b) m" where
  "bindE f g s = (case f s of (Inl e, s') \<Rightarrow> (Inl e, s') | (Inr a, s') \<Rightarrow> g a s')"

definition thenE :: "('s, 'a) m \<Rightarrow> ('s, 'b) m \<Rightarrow> ('s, 'b) m" where
  "thenE f g = bindE f (\<lambda>_. g)"

text \<open>\<^verbatim>\<open>try: f except <those e with c e>: h e\<close>; the state reached when the exception was
  raised is the one the handler starts from.\<close>

definition catchE :: "(exn \<Rightarrow> bool) \<Rightarrow> ('s, 'a) m \<Rightarrow> (exn \<Rightarrow> ('s, 'a) m) \<Rightarrow> ('s, 'a) m" where
  "catchE c f h s =
     (case f s of (Inl e, s') \<Rightarrow> (if c e then h e s' else (Inl e, s')) | (Inr a, s') \<Rightarrow> (Inr a, s'))"

definition liftE :: "exn + 'a \<Rightarrow> ('s, 'a) m" where
  "liftE r s = (r, s)"

definition modifyE :: "('s \<Rightarrow> 's) \<Rightarrow> ('s, unit) m" where
  "modifyE f s = (Inr (), f s)"

definition getE :: "('s \<Rightarrow> 'a) \<Rightarrow> ('s, 'a) m" where
  "getE f s = (Inr (f s), s)"

definition whenE :: "bool \<Rightarrow> ('s, unit) m \<Rightarrow> ('s, unit) m" where
  "whenE b f = (if b then f else returnE ())"

text \<open>A call whose result is not used.\<close>

definition ignoreE :: "('s, 'a) m \<Rightarrow> ('s, unit) m" where
  "ignoreE f = thenE f (returnE ())"

definition emit :: "event \<Rightarrow> ('a world_scheme, unit) m" where
  "emit ev = modifyE (\<lambda>s. s\<lparr>trace := trace s @ [ev]\<rparr>)"

text \<open>A call into the HPC that returns nothing: it raises, or completes and is recorded.\<close>

definition hpc_call :: "exn option \<Rightarrow> event \<Rightarrow> ('a world_scheme, unit) m" where
  "hpc_call outcome ev = (case outcome of Some e \<Rightarrow> raiseE e | None \<Rightarrow> emit ev)"

definition any_Exception :: "exn \<Rightarrow> bool" where
  "any_Exception e = True"

definition is_ValueError :: "exn \<Rightarrow> bool" where
  "is_ValueError e = (e = ValueError)"

section \<open>The collaborators\<close>

text \<open>
  The arguments of \<^verbatim>\<open>NHRExecutor.trigger_slurm_job\<close>, as
  \<^verbatim>\<open>prepare_and_trigger_slurm_job\<close> passes them.
\<close>

record trigger_args =
  ta_workflow_job_id :: jval
  ta_nextflow_script_path :: string
  ta_workspace_id :: jval
  ta_mets_basename :: string
  ta_input_file_grp :: jval
  ta_nf_process_forks :: int
  ta_ws_pages_amount :: int
  ta_use_mets_server :: bool
  ta_nf_executable_steps :: "string list"
  ta_file_groups_to_remove :: jval
  ta_cpus :: int
  ta_ram :: int
  ta_job_deadline_time :: string
  ta_partition :: jval
  ta_qos :: string

text \<open>
  What the workers import and call but do not define: the outcome of every call into
  the HPC (\<^verbatim>\<open>NHRExecutor\<close>, \<^verbatim>\<open>NHRTransfer\<close>) and into the OCR-D resolver, each of
  which raises or returns; the conversion \<^verbatim>\<open>StateJob.convert_from_slurm_job\<close>, which may
  raise (the status worker catches its \<^verbatim>\<open>ValueError\<close>); the constants of
  \<^verbatim>\<open>operandi_utils.hpc.constants\<close>; and Python's \<^verbatim>\<open>int\<close> on a string. They are
  parameters of the model: a theorem holds for every choice of them.
\<close>

record env =
  py_int_of_str :: "string \<Rightarrow> int option"
  convert_from_slurm_job :: "string \<Rightarrow> exn + StateJob"
  check_slurm_job_state :: "string \<Rightarrow> exn + string"
  download_slurm_job_log_file :: "string \<Rightarrow> string \<Rightarrow> exn option"
  get_and_unpack_slurm_workspace :: "string \<Rightarrow> string \<Rightarrow> exn option"
  workspace_from_url :: "string \<Rightarrow> string \<Rightarrow> exn + string list"
  pack_and_put_slurm_workspace :: "string \<Rightarrow> jval \<Rightarrow> string \<Rightarrow> exn option"
  trigger_slurm_job :: "trigger_args \<Rightarrow> exn + string"
  slurm_workspaces_dir :: string
  hpc_slurm_job_state_default :: string
  HPC_BATCH_SUBMIT_WORKFLOW_JOB :: string
  HPC_JOB_DEADLINE_TIME_REGULAR :: string
  HPC_JOB_DEADLINE_TIME_TEST :: string
  HPC_JOB_QOS_SHORT :: string
  HPC_JOB_QOS_DEFAULT :: string

subsection \<open>The database\<close>

text \<open>
  The functions \<^verbatim>\<open>sync_db_*\<close> of \<^verbatim>\<open>operandi_utils.database\<close> are not part of the
  sources. Each collection is the list of its documents; a document is found by its
  identifier, the first that matches.
\<close>

fun update_first :: "('r \<Rightarrow> bool) \<Rightarrow> ('r \<Rightarrow> 'r) \<Rightarrow> 'r list \<Rightarrow> 'r list" where
  "update_first P f [] = []"
| "update_first P f (x # xs) = (if P x then f x # xs else x # update_first P f xs)"

text \<open>Modelled from the spec: the store is unreachable (section 7, store error); every
  access to it raises then.\<close>

definition store_guard :: "('a world_scheme, unit) m" where
  "store_guard s = (if store_up s then (Inr (), s) else (Inl OtherException, s))"

text \<open>Modelled from the spec: get by id (section 6); a missing record is a store error
  (section 7), raised as the \<^verbatim>\<open>RuntimeError\<close> the workers catch first.\<close>

definition find_one :: "('r \<Rightarrow> bool) \<Rightarrow> 'r list \<Rightarrow> ('s, 'r) m" where
  "find_one P xs = (case find P xs of None \<Rightarrow> raiseE RuntimeError | Some r \<Rightarrow> returnE r)"

definition is_job :: "jval \<Rightarrow> DBWorkflowJob \<Rightarrow> bool" where
  "is_job k r = (JStr (job_id r) = k)"

definition is_workspace :: "jval \<Rightarrow> DBWorkspace \<Rightarrow> bool" where
  "is_workspace k r = (JStr (workspace_id r) = k)"

definition is_workflow :: "jval \<Rightarrow> DBWorkflow \<Rightarrow> bool" where
  "is_workflow k r = (JStr (workflow_id r) = k)"

definition is_hpc_slurm_job :: "jval \<Rightarrow> DBHPCSlurmJob \<Rightarrow> bool" where
  "is_hpc_slurm_job k r = (workflow_job_id r = k)"

definition is_stats :: "jval \<Rightarrow> DBProcessingStats \<Rightarrow> bool" where
  "is_stats k r = (JStr (stats_user_id r) = k)"

text \<open>Modelled from the spec: get by id of a WorkflowJob.\<close>

definition sync_db_get_workflow_job :: "jval \<Rightarrow> ('a world_scheme, DBWorkflowJob) m" where
  "sync_db_get_workflow_job k =
     thenE store_guard (bindE (getE workflow_jobs) (find_one (is_job k)))"

text \<open>Modelled from the spec: get by id of a Workspace.\<close>

definition sync_db_get_workspace :: "jval \<Rightarrow> ('a world_scheme, DBWorkspace) m" where
  "sync_db_get_workspace k =
     thenE store_guard (bindE (getE workspaces) (find_one (is_workspace k)))"

text \<open>Modelled from the spec: get by id of a workflow, the record a WorkflowJob refers to
  by its workflow_id (section 4.2, step 2).\<close>

definition sync_db_get_workflow :: "jval \<Rightarrow> ('a world_scheme, DBWorkflow) m" where
  "sync_db_get_workflow k =
     thenE store_guard (bindE (getE workflows) (find_one (is_workflow k)))"

text \<open>Modelled from the spec: get of a RemoteJobHandle by the id of its WorkflowJob.\<close>

definition sync_db_get_hpc_slurm_job :: "jval \<Rightarrow> ('a world_scheme, DBHPCSlurmJob) m" where
  "sync_db_get_hpc_slurm_job k =
     thenE store_guard (bindE (getE hpc_slurm_jobs) (find_one (is_hpc_slurm_job k)))"

text \<open>Modelled from the spec: update by id of a WorkflowJob; it reads the record, replaces
  it and returns the new record.\<close>

definition sync_db_update_workflow_job ::
  "jval \<Rightarrow> StateJob \<Rightarrow> ('a world_scheme, DBWorkflowJob) m" where
  "sync_db_update_workflow_job k st =
     bindE (sync_db_get_workflow_job k) (\<lambda>r.
     thenE (modifyE (\<lambda>s. s\<lparr>workflow_jobs :=
              update_first (is_job k) (\<lambda>r. r\<lparr>job_state := st\<rparr>) (workflow_jobs s)\<rparr>))
    (thenE (emit (Db_update_workflow_job (job_id r) st))
           (returnE (r\<lparr>job_state := st\<rparr>))))"

text \<open>Modelled from the spec: update by id of a Workspace, of its state and, when they
  are given, of its file groups.\<close>

definition set_workspace :: "StateWorkspace \<Rightarrow> string list option \<Rightarrow> DBWorkspace \<Rightarrow> DBWorkspace" where
  "set_workspace st fgs r =
     (case fgs of None \<Rightarrow> r\<lparr>state := st\<rparr> | Some g \<Rightarrow> r\<lparr>file_groups := g, state := st\<rparr>)"

text \<open>Modelled from the spec: update by id of a Workspace; it reads the record, replaces
  it and returns the new record.\<close>

definition sync_db_update_workspace ::
  "jval \<Rightarrow> StateWorkspace \<Rightarrow> string list option \<Rightarrow> ('a world_scheme, DBWorkspace) m" where
  "sync_db_update_workspace k st fgs =
     bindE (sync_db_get_workspace k) (\<lambda>r.
     thenE (modifyE (\<lambda>s. s\<lparr>workspaces :=
              update_first (is_workspace k) (set_workspace st fgs) (workspaces s)\<rparr>))
    (thenE (emit (Db_update_workspace (workspace_id r) st fgs))
           (returnE (set_workspace st fgs r))))"

text \<open>Modelled from the spec: update of the remote state of a RemoteJobHandle.\<close>

definition sync_db_update_hpc_slurm_job ::
  "jval \<Rightarrow> string \<Rightarrow> ('a world_scheme, DBHPCSlurmJob) m" where
  "sync_db_update_hpc_slurm_job k st =
     bindE (sync_db_get_hpc_slurm_job k) (\<lambda>r.
     thenE (modifyE (\<lambda>s. s\<lparr>hpc_slurm_jobs :=
              update_first (is_hpc_slurm_job k) (\<lambda>r. r\<lparr>hpc_slurm_job_state := st\<rparr>)
                (hpc_slurm_jobs s)\<rparr>))
    (thenE (emit (Db_update_hpc_slurm_job k st))
           (returnE (r\<lparr>hpc_slurm_job_state := st\<rparr>))))"

text \<open>Modelled from the spec: the counters of the ProcessingStats of a user are increased
  (section 3); it reads the record, replaces it and returns the new record.\<close>

definition add_stats :: "int \<Rightarrow> int \<Rightarrow> DBProcessingStats \<Rightarrow> DBProcessingStats" where
  "add_stats ps pf r = r\<lparr>pages_succeed := pages_succeed r + ps, pages_failed := pages_failed r + pf\<rparr>"

text \<open>Modelled from the spec: increase of the ProcessingStats counters of a user.\<close>

definition sync_db_increase_processing_stats ::
  "jval \<Rightarrow> int \<Rightarrow> int \<Rightarrow> ('a world_scheme, DBProcessingStats) m" where
  "sync_db_increase_processing_stats k ps pf =
     thenE store_guard (bindE (getE processing_stats) (\<lambda>xs.
     bindE (find_one (is_stats k) xs) (\<lambda>r.
     thenE (modifyE (\<lambda>s. s\<lparr>processing_stats :=
              update_first (is_stats k) (add_stats ps pf) (processing_stats s)\<rparr>))
    (thenE (emit (Db_increase_processing_stats (stats_user_id r) ps pf))
           (returnE (add_stats ps pf r))))))"

text \<open>Modelled from the spec: a RemoteJobHandle is created (section 4.2, step 5); the
  new record joins the collection, whatever the collection holds.\<close>

definition sync_db_create_hpc_slurm_job ::
  "env \<Rightarrow> jval \<Rightarrow> jval \<Rightarrow> string \<Rightarrow> string \<Rightarrow> string \<Rightarrow> ('a world_scheme, DBHPCSlurmJob) m" where
  "sync_db_create_hpc_slurm_job en uid jid sid script path =
     thenE store_guard
    (thenE (modifyE (\<lambda>s. s\<lparr>hpc_slurm_jobs := hpc_slurm_jobs s @
              [\<lparr>hpc_user_id = uid, workflow_job_id = jid, hpc_slurm_job_id = sid,
                hpc_slurm_job_state = hpc_slurm_job_state_default en,
                hpc_batch_script_path = script, hpc_slurm_workspace_path = path\<rparr>]\<rparr>))
    (thenE (emit (Db_create_hpc_slurm_job jid sid))
           (returnE \<lparr>hpc_user_id = uid, workflow_job_id = jid, hpc_slurm_job_id = sid,
                hpc_slurm_job_state = hpc_slurm_job_state_default en,
                hpc_batch_script_path = script, hpc_slurm_workspace_path = path\<rparr>)))"

subsection \<open>The message channel and the message body\<close>

text \<open>
  The two ways in which the workers acknowledge a delivery: \<^verbatim>\<open>ch.basic_ack\<close> at the end of a
  callback, \<^verbatim>\<open>self.rmq_consumer.ack_message\<close> in the failure handlers. A callback runs
  because the consumer delivered a message, and a message is in flight only then, so the
  consumer is taken to be connected whenever one of them is called.
\<close>

definition basic_ack :: "nat \<Rightarrow> ('a world_scheme, unit) m" where
  "basic_ack tag = emit (Basic_ack tag)"

definition ack_message :: "nat option \<Rightarrow> ('a world_scheme, unit) m" where
  "ack_message tag = emit (Ack_message tag)"

text \<open>\<^verbatim>\<open>json.loads(body)\<close>: a body that does not decode to an object raises; one that does
  is the dictionary of its fields.\<close>

definition loads :: "(string \<rightharpoonup> jval) option \<Rightarrow> ('s, string \<rightharpoonup> jval) m" where
  "loads body = (case body of None \<Rightarrow> raiseE ValueError | Some d \<Rightarrow> returnE d)"

text \<open>\<^verbatim>\<open>consumed_message[k]\<close>\<close>

definition getitem :: "(string \<rightharpoonup> jval) \<Rightarrow> string \<Rightarrow> ('s, jval) m" where
  "getitem d k = (case d k of None \<Rightarrow> raiseE KeyError | Some v \<Rightarrow> returnE v)"

text \<open>\<^verbatim>\<open>int(v)\<close>\<close>

definition py_int :: "env \<Rightarrow> jval \<Rightarrow> exn + int" where
  "py_int en v =
     (case v of
        JInt n \<Rightarrow> Inr n
      | JStr t \<Rightarrow> (case py_int_of_str en t of None \<Rightarrow> Inl ValueError | Some n \<Rightarrow> Inr n)
      | JNull \<Rightarrow> Inl TypeError)"

section \<open>JobStatusWorker\<close>

text \<open>
  \<^verbatim>\<open>JobStatusWorker.__handle_message_failure\<close>: it acknowledges the message and, unless
  interrupted, forgets it. It writes nothing to the database.
\<close>

definition status_handle_message_failure :: "bool \<Rightarrow> ('a worker_self_scheme, unit) m" where
  "status_handle_message_failure interruption =
     thenE (modifyE (\<lambda>s. s\<lparr>has_consumed_message := False\<rparr>))
       (if interruption then bindE (getE current_message_delivery_tag) ack_message
        else
          thenE (bindE (getE current_message_delivery_tag) ack_message)
                (modifyE (\<lambda>s. s\<lparr>current_message_delivery_tag := None,
                                 current_message_job_id := JNull\<rparr>)))"

definition download_results_from_hpc :: "env \<Rightarrow> string \<Rightarrow> string \<Rightarrow> ('a world_scheme, unit) m" where
  "download_results_from_hpc en jdir wdir =
     hpc_call (get_and_unpack_slurm_workspace en wdir jdir)
       (Hpc_get_and_unpack_slurm_workspace wdir jdir)"

definition extract_updated_file_groups :: "env \<Rightarrow> DBWorkspace \<Rightarrow> ('s, string list) m" where
  "extract_updated_file_groups en db_workspace =
     catchE any_Exception
       (liftE (workspace_from_url en (workspace_mets_path db_workspace) (mets_basename db_workspace)))
       (\<lambda>error. returnE [''CORRUPTED FILE GROUPS''])"

text \<open>The branch \<^verbatim>\<open>if new_job_state == StateJob.SUCCESS\<close>.\<close>

definition on_success ::
  "env \<Rightarrow> DBHPCSlurmJob \<Rightarrow> DBWorkflowJob \<Rightarrow> DBWorkspace \<Rightarrow> ('a worker_self_scheme, unit) m" where
  "on_success en hpc_slurm_job_db workflow_job_db workspace_db =
     thenE (hpc_call (download_slurm_job_log_file en (hpc_slurm_job_id hpc_slurm_job_db)
                        (job_dir workflow_job_db))
              (Hpc_download_slurm_job_log_file (hpc_slurm_job_id hpc_slurm_job_db)
                 (job_dir workflow_job_db)))
    (thenE (sync_db_update_workspace (JStr (workspace_id workspace_db)) WS_TRANSFERRING_FROM_HPC None)
    (thenE (sync_db_update_workflow_job (JStr (job_id workflow_job_db)) JOB_TRANSFERRING_FROM_HPC)
    (thenE (download_results_from_hpc en (job_dir workflow_job_db) (workspace_dir workspace_db))
    (bindE (extract_updated_file_groups en workspace_db) (\<lambda>updated_file_groups.
     bindE (sync_db_update_workspace (JStr (workspace_id workspace_db)) WS_READY
              (Some updated_file_groups)) (\<lambda>db_workspace.
     bindE (getE current_message_job_id) (\<lambda>jid.
     thenE (sync_db_update_workflow_job jid JOB_SUCCESS)
           (ignoreE (sync_db_increase_processing_stats (JStr (user_id workspace_db))
                       (pages_amount db_workspace) 0)))))))))"

text \<open>The branch \<^verbatim>\<open>if new_job_state == StateJob.FAILED\<close>.\<close>

definition on_failed ::
  "env \<Rightarrow> DBHPCSlurmJob \<Rightarrow> DBWorkflowJob \<Rightarrow> DBWorkspace \<Rightarrow> ('a worker_self_scheme, unit) m" where
  "on_failed en hpc_slurm_job_db workflow_job_db workspace_db =
     thenE (hpc_call (download_slurm_job_log_file en (hpc_slurm_job_id hpc_slurm_job_db)
                        (job_dir workflow_job_db))
              (Hpc_download_slurm_job_log_file (hpc_slurm_job_id hpc_slurm_job_db)
                 (job_dir workflow_job_db)))
    (bindE (sync_db_update_workspace (JStr (workspace_id workspace_db)) WS_READY None) (\<lambda>db_workspace.
     bindE (getE current_message_job_id) (\<lambda>jid.
     thenE (sync_db_update_workflow_job jid JOB_FAILED)
           (ignoreE (sync_db_increase_processing_stats (JStr (user_id workspace_db))
                       0 (pages_amount db_workspace))))))"

text \<open>\<^verbatim>\<open>JobStatusWorker.__handle_hpc_and_workflow_states\<close>\<close>

definition handle_hpc_and_workflow_states ::
  "env \<Rightarrow> DBHPCSlurmJob \<Rightarrow> DBWorkflowJob \<Rightarrow> DBWorkspace \<Rightarrow> ('a worker_self_scheme, unit) m" where
  "handle_hpc_and_workflow_states en hpc_slurm_job_db workflow_job_db workspace_db =
     bindE (liftE (check_slurm_job_state en (hpc_slurm_job_id hpc_slurm_job_db)))
       (\<lambda>new_slurm_job_state.
     thenE (whenE (hpc_slurm_job_state hpc_slurm_job_db \<noteq> new_slurm_job_state)
              (ignoreE (sync_db_update_hpc_slurm_job (JStr (job_id workflow_job_db))
                          new_slurm_job_state)))
    (bindE (liftE (convert_from_slurm_job en new_slurm_job_state)) (\<lambda>new_job_state.
     whenE (job_state workflow_job_db \<noteq> new_job_state)
       (thenE (whenE (new_job_state = JOB_SUCCESS)
                 (on_success en hpc_slurm_job_db workflow_job_db workspace_db))
              (whenE (new_job_state = JOB_FAILED)
                 (on_failed en hpc_slurm_job_db workflow_job_db workspace_db))))))"

text \<open>The first \<^verbatim>\<open>try\<close> of \<^verbatim>\<open>JobStatusWorker.__callback\<close>; False when the handler ran and
  the callback returns.\<close>

definition status_parse :: "(string \<rightharpoonup> jval) option \<Rightarrow> ('a worker_self_scheme, bool) m" where
  "status_parse body =
     catchE any_Exception
       (bindE (loads body) (\<lambda>consumed_message.
        bindE (getitem consumed_message ''job_id'') (\<lambda>j.
        thenE (modifyE (\<lambda>s. s\<lparr>current_message_job_id := j\<rparr>)) (returnE True))))
       (\<lambda>error. thenE (status_handle_message_failure False) (returnE False))"

text \<open>The second \<^verbatim>\<open>try\<close>: the three reads. Its two handlers, for \<^verbatim>\<open>RuntimeError\<close> and
  for \<^verbatim>\<open>Exception\<close>, do the same.\<close>

definition status_reads ::
  "('a worker_self_scheme, (DBWorkflowJob \<times> DBWorkspace \<times> DBHPCSlurmJob) option) m" where
  "status_reads =
     catchE any_Exception
       (bindE (getE current_message_job_id) (\<lambda>jid.
        bindE (sync_db_get_workflow_job jid) (\<lambda>db_workflow_job.
        bindE (sync_db_get_workspace (JStr (job_workspace_id db_workflow_job))) (\<lambda>db_workspace.
        bindE (sync_db_get_hpc_slurm_job jid) (\<lambda>db_hpc_slurm_job.
        returnE (Some (db_workflow_job, db_workspace, db_hpc_slurm_job)))))))
       (\<lambda>error. thenE (status_handle_message_failure False) (returnE None))"

text \<open>The third \<^verbatim>\<open>try\<close>, which catches \<^verbatim>\<open>ValueError\<close> only, and the acknowledgement
  after it.\<close>

definition status_process ::
  "env \<Rightarrow> nat \<Rightarrow> DBWorkflowJob \<Rightarrow> DBWorkspace \<Rightarrow> DBHPCSlurmJob \<Rightarrow> ('a worker_self_scheme, unit) m" where
  "status_process en tag db_workflow_job db_workspace db_hpc_slurm_job =
     bindE (catchE is_ValueError
              (thenE (handle_hpc_and_workflow_states en db_hpc_slurm_job db_workflow_job db_workspace)
                     (returnE True))
              (\<lambda>error. thenE (status_handle_message_failure False) (returnE False)))
       (\<lambda>ok. if ok
              then thenE (modifyE (\<lambda>s. s\<lparr>has_consumed_message := False\<rparr>)) (basic_ack tag)
              else returnE ())"

text \<open>\<^verbatim>\<open>JobStatusWorker.__callback\<close>, for the delivery tag and the body of the message.\<close>

definition status_callback ::
  "env \<Rightarrow> nat \<Rightarrow> (string \<rightharpoonup> jval) option \<Rightarrow> ('a worker_self_scheme, unit) m" where
  "status_callback en tag body =
     thenE (modifyE (\<lambda>s. s\<lparr>current_message_delivery_tag := Some tag,
                            has_consumed_message := True\<rparr>))
    (bindE (status_parse body) (\<lambda>parsed.
       if \<not> parsed then returnE ()
       else bindE status_reads (\<lambda>r.
         case r of
           None \<Rightarrow> returnE ()
         | Some (db_workflow_job, db_workspace, db_hpc_slurm_job) \<Rightarrow>
             status_process en tag db_workflow_job db_workspace db_hpc_slurm_job)))"

text \<open>\<^verbatim>\<open>JobStatusWorker.signal_handler\<close>; the process ends with \<^verbatim>\<open>exit(0)\<close>.\<close>

definition status_signal_handler :: "('a worker_self_scheme, unit) m" where
  "status_signal_handler =
     bindE (getE has_consumed_message) (\<lambda>consumed.
     thenE (whenE consumed (status_handle_message_failure True))
    (thenE (emit Disconnect) (emit (Exit 0))))"

section \<open>JobSubmitWorker\<close>

text \<open>
  \<^verbatim>\<open>JobSubmitWorker.__handle_message_failure\<close>: the job of the current message is marked
  failed, the workspace is set ready when \<open>set_ws_ready\<close> says so, the message is
  acknowledged and, unless interrupted, forgotten (but for the user id).
\<close>

definition submit_handle_message_failure :: "bool \<Rightarrow> bool \<Rightarrow> (JobSubmitWorker, unit) m" where
  "submit_handle_message_failure interruption set_ws_ready =
     bindE (getE current_message_job_id) (\<lambda>jid.
     thenE (sync_db_update_workflow_job jid JOB_FAILED)
    (thenE (modifyE (\<lambda>s. s\<lparr>has_consumed_message := False\<rparr>))
    (thenE (whenE set_ws_ready
              (bindE (getE current_message_ws_id) (\<lambda>wid.
               ignoreE (sync_db_update_workspace wid WS_READY None))))
       (if interruption then bindE (getE current_message_delivery_tag) ack_message
        else
          thenE (bindE (getE current_message_delivery_tag) ack_message)
                (modifyE (\<lambda>s. s\<lparr>current_message_delivery_tag := None,
                                 current_message_ws_id := JNull,
                                 current_message_wf_id := JNull,
                                 current_message_job_id := JNull\<rparr>))))))"

text \<open>\<^verbatim>\<open>os.path.join(a, b)\<close> on two strings.\<close>

definition py_join :: "string \<Rightarrow> string \<Rightarrow> string" where
  "py_join a b =
     (if b \<noteq> [] \<and> hd b = CHR ''/'' then b
      else if a = [] \<or> last a = CHR ''/'' then a @ b
      else a @ ''/'' @ b)"

definition join_job :: "string \<Rightarrow> jval \<Rightarrow> ('s, string) m" where
  "join_job a v = (case v of JStr b \<Rightarrow> returnE (py_join a b) | _ \<Rightarrow> raiseE TypeError)"

text \<open>The three \<^verbatim>\<open>try\<close> blocks of \<^verbatim>\<open>prepare_and_trigger_slurm_job\<close>; each handler raises
  a new \<^verbatim>\<open>Exception\<close>, the second after it has increased \<^verbatim>\<open>pages_failed\<close>.\<close>

definition stage_workspace ::
  "env \<Rightarrow> jval \<Rightarrow> jval \<Rightarrow> string \<Rightarrow> string \<Rightarrow> (JobSubmitWorker, unit) m" where
  "stage_workspace en workflow_job_id' workspace_id' workspace_dir' workflow_script_path' =
     catchE any_Exception
       (thenE (sync_db_update_workspace workspace_id' WS_TRANSFERRING_TO_HPC None)
       (thenE (sync_db_update_workflow_job workflow_job_id' JOB_TRANSFERRING_TO_HPC)
              (hpc_call (pack_and_put_slurm_workspace en workspace_dir' workflow_job_id'
                           workflow_script_path')
                 (Hpc_pack_and_put_slurm_workspace workspace_dir' workflow_job_id'
                    workflow_script_path'))))
       (\<lambda>error. raiseE OtherException)"

definition submit_slurm_job :: "env \<Rightarrow> trigger_args \<Rightarrow> (JobSubmitWorker, string) m" where
  "submit_slurm_job en args =
     catchE any_Exception
       (bindE (liftE (trigger_slurm_job en args)) (\<lambda>slurm_job_id.
        thenE (emit (Hpc_trigger_slurm_job (ta_workflow_job_id args) slurm_job_id))
              (returnE slurm_job_id)))
       (\<lambda>error.
          bindE (getE current_message_user_id) (\<lambda>uid.
          thenE (sync_db_increase_processing_stats uid 0 (ta_ws_pages_amount args))
                (raiseE OtherException)))"

definition save_hpc_slurm_job :: "env \<Rightarrow> jval \<Rightarrow> string \<Rightarrow> (JobSubmitWorker, unit) m" where
  "save_hpc_slurm_job en workflow_job_id' slurm_job_id =
     catchE any_Exception
       (bindE (getE current_message_user_id) (\<lambda>uid.
        bindE (join_job (slurm_workspaces_dir en) workflow_job_id') (\<lambda>path.
        ignoreE (sync_db_create_hpc_slurm_job en uid workflow_job_id' slurm_job_id
                   (HPC_BATCH_SUBMIT_WORKFLOW_JOB en) path))))
       (\<lambda>error. raiseE OtherException)"

text \<open>\<^verbatim>\<open>JobSubmitWorker.prepare_and_trigger_slurm_job\<close>\<close>

definition prepare_and_trigger_slurm_job ::
  "env \<Rightarrow> jval \<Rightarrow> jval \<Rightarrow> string \<Rightarrow> string \<Rightarrow> string \<Rightarrow> jval \<Rightarrow> int \<Rightarrow> int \<Rightarrow> bool \<Rightarrow>
   string list \<Rightarrow> jval \<Rightarrow> int \<Rightarrow> int \<Rightarrow> jval \<Rightarrow> (JobSubmitWorker, string) m" where
  "prepare_and_trigger_slurm_job en workflow_job_id' workspace_id' workspace_dir' workspace_base_mets
     workflow_script_path' input_file_grp' nf_process_forks' ws_pages_amount use_mets_server
     nf_executable_steps file_groups_to_remove cpus ram partition' =
     bindE (getE test_sbatch) (\<lambda>test.
     thenE (stage_workspace en workflow_job_id' workspace_id' workspace_dir' workflow_script_path')
    (bindE (submit_slurm_job en
              \<lparr>ta_workflow_job_id = workflow_job_id',
               ta_nextflow_script_path = workflow_script_path',
               ta_workspace_id = workspace_id',
               ta_mets_basename = workspace_base_mets,
               ta_input_file_grp = input_file_grp',
               ta_nf_process_forks = nf_process_forks',
               ta_ws_pages_amount = ws_pages_amount,
               ta_use_mets_server = use_mets_server,
               ta_nf_executable_steps = nf_executable_steps,
               ta_file_groups_to_remove = file_groups_to_remove,
               ta_cpus = cpus,
               ta_ram = ram,
               ta_job_deadline_time =
                 (if test then HPC_JOB_DEADLINE_TIME_TEST en else HPC_JOB_DEADLINE_TIME_REGULAR en),
               ta_partition = partition',
               ta_qos = (if test then HPC_JOB_QOS_SHORT en else HPC_JOB_QOS_DEFAULT en)\<rparr>)
       (\<lambda>slurm_job_id.
     thenE (save_hpc_slurm_job en workflow_job_id' slurm_job_id)
           (returnE slurm_job_id))))"

text \<open>What the first \<^verbatim>\<open>try\<close> of \<^verbatim>\<open>JobSubmitWorker.__callback\<close> leaves in local
  variables.\<close>

record submit_request =
  input_file_grp :: jval
  remove_file_grps :: jval
  slurm_job_partition :: jval
  slurm_job_cpus :: int
  slurm_job_ram :: int
  nf_process_forks :: int

text \<open>The first \<^verbatim>\<open>try\<close>: the message is decoded, field by field, into the worker's fields
  and the local variables; None when the handler ran and the callback returns.\<close>

definition submit_parse ::
  "env \<Rightarrow> (string \<rightharpoonup> jval) option \<Rightarrow> (JobSubmitWorker, submit_request option) m" where
  "submit_parse en body =
     catchE any_Exception
       (bindE (loads body) (\<lambda>consumed_message.
        bindE (getitem consumed_message ''user_id'') (\<lambda>v.
        thenE (modifyE (\<lambda>s. s\<lparr>current_message_user_id := v\<rparr>))
       (bindE (getitem consumed_message ''workspace_id'') (\<lambda>v.
        thenE (modifyE (\<lambda>s. s\<lparr>current_message_ws_id := v\<rparr>))
       (bindE (getitem consumed_message ''workflow_id'') (\<lambda>v.
        thenE (modifyE (\<lambda>s. s\<lparr>current_message_wf_id := v\<rparr>))
       (bindE (getitem consumed_message ''job_id'') (\<lambda>v.
        thenE (modifyE (\<lambda>s. s\<lparr>current_message_job_id := v\<rparr>))
       (bindE (getitem consumed_message ''input_file_grp'') (\<lambda>ifg.
        bindE (getitem consumed_message ''remove_file_grps'') (\<lambda>rfg.
        bindE (getitem consumed_message ''partition'') (\<lambda>part.
        bindE (getitem consumed_message ''cpus'') (\<lambda>c.
        bindE (liftE (py_int en c)) (\<lambda>cpus.
        bindE (getitem consumed_message ''ram'') (\<lambda>r.
        bindE (liftE (py_int en r)) (\<lambda>ram.
        returnE (Some \<lparr>input_file_grp = ifg, remove_file_grps = rfg,
                        slurm_job_partition = part, slurm_job_cpus = cpus,
                        slurm_job_ram = ram, nf_process_forks = cpus\<rparr>))))))))))))))))))
       (\<lambda>error. thenE (submit_handle_message_failure False False) (returnE None))"

text \<open>The second \<^verbatim>\<open>try\<close>: the reads of the workflow and of the workspace. Its two
  handlers, for \<^verbatim>\<open>RuntimeError\<close> and for \<^verbatim>\<open>Exception\<close>, do the same.\<close>

definition submit_reads :: "(JobSubmitWorker, (DBWorkflow \<times> DBWorkspace) option) m" where
  "submit_reads =
     catchE any_Exception
       (bindE (getE current_message_wf_id) (\<lambda>wf.
        bindE (sync_db_get_workflow wf) (\<lambda>workflow_db.
        bindE (getE current_message_ws_id) (\<lambda>ws.
        bindE (sync_db_get_workspace ws) (\<lambda>workspace_db.
        returnE (Some (workflow_db, workspace_db)))))))
       (\<lambda>error. thenE (submit_handle_message_failure False True) (returnE None))"

text \<open>The third \<^verbatim>\<open>try\<close>: the slurm job is triggered; False when the handler ran and the
  callback returns.\<close>

definition submit_trigger ::
  "env \<Rightarrow> submit_request \<Rightarrow> DBWorkflow \<Rightarrow> DBWorkspace \<Rightarrow> (JobSubmitWorker, bool) m" where
  "submit_trigger en rq workflow_db workspace_db =
     catchE any_Exception
       (bindE (getE current_message_job_id) (\<lambda>jid.
        bindE (getE current_message_ws_id) (\<lambda>wid.
        thenE (prepare_and_trigger_slurm_job en jid wid (workspace_dir workspace_db)
                 (if mets_basename workspace_db = [] then ''mets.xml''
                  else mets_basename workspace_db)
                 (workflow_script_path workflow_db) (input_file_grp rq) (nf_process_forks rq)
                 (pages_amount workspace_db) (uses_mets_server workflow_db)
                 (executable_steps workflow_db) (remove_file_grps rq) (slurm_job_cpus rq)
                 (slurm_job_ram rq) (slurm_job_partition rq))
              (returnE True))))
       (\<lambda>error. thenE (submit_handle_message_failure False True) (returnE False))"

text \<open>The end of the callback, after the three \<^verbatim>\<open>try\<close> blocks: both states are set to
  pending and the message is acknowledged.\<close>

definition submit_finish :: "nat \<Rightarrow> (JobSubmitWorker, unit) m" where
  "submit_finish tag =
     bindE (getE current_message_job_id) (\<lambda>jid.
     thenE (sync_db_update_workflow_job jid JOB_PENDING)
    (bindE (getE current_message_ws_id) (\<lambda>wid.
     thenE (sync_db_update_workspace wid WS_PENDING None)
    (thenE (modifyE (\<lambda>s. s\<lparr>has_consumed_message := False\<rparr>))
           (basic_ack tag)))))"

text \<open>\<^verbatim>\<open>JobSubmitWorker.__callback\<close>, for the delivery tag and the body of the message.\<close>

definition submit_callback ::
  "env \<Rightarrow> nat \<Rightarrow> (string \<rightharpoonup> jval) option \<Rightarrow> (JobSubmitWorker, unit) m" where
  "submit_callback en tag body =
     thenE (modifyE (\<lambda>s. s\<lparr>current_message_delivery_tag := Some tag,
                            has_consumed_message := True\<rparr>))
    (bindE (submit_parse en body) (\<lambda>parsed.
       case parsed of
         None \<Rightarrow> returnE ()
       | Some rq \<Rightarrow>
           bindE submit_reads (\<lambda>r.
             case r of
               None \<Rightarrow> returnE ()
             | Some (workflow_db, workspace_db) \<Rightarrow>
                 bindE (submit_trigger en rq workflow_db workspace_db) (\<lambda>ok.
                   if ok then submit_finish tag else returnE ()))))"

text \<open>\<^verbatim>\<open>JobSubmitWorker.signal_handler\<close>; the process ends with \<^verbatim>\<open>exit(0)\<close>.\<close>

definition submit_signal_handler :: "(JobSubmitWorker, unit) m" where
  "submit_signal_handler =
     bindE (getE has_consumed_message) (\<lambda>consumed.
     thenE (whenE consumed (submit_handle_message_failure True False))
    (thenE (emit Disconnect) (emit (Exit 0))))"

section \<open>Example inputs\<close>

text \<open>A gateway on which every call succeeds; the remote job has completed.\<close>

definition env_ok :: env where
  "env_ok = \<lparr>py_int_of_str = (\<lambda>t. None),
     convert_from_slurm_job = (\<lambda>t.
        if t = ''COMPLETED'' then Inr JOB_SUCCESS
        else if t = ''FAILED'' then Inr JOB_FAILED
        else if t = ''RUNNING'' then Inr JOB_RUNNING
        else if t = ''PENDING'' then Inr JOB_PENDING
        else Inl ValueError),
     check_slurm_job_state = (\<lambda>i. Inr ''COMPLETED''),
     download_slurm_job_log_file = (\<lambda>i d. None),
     get_and_unpack_slurm_workspace = (\<lambda>w j. None),
     workspace_from_url = (\<lambda>u b. Inr [''OCR-D-IMG'', ''OCR-D-OCR'']),
     pack_and_put_slurm_workspace = (\<lambda>w j p. None),
     trigger_slurm_job = (\<lambda>a. Inr ''4711''),
     slurm_workspaces_dir = ''/hpc/ws'',
     hpc_slurm_job_state_default = ''UNSET'',
     HPC_BATCH_SUBMIT_WORKFLOW_JOB = ''batch.sh'',
     HPC_JOB_DEADLINE_TIME_REGULAR = ''48:00:00'',
     HPC_JOB_DEADLINE_TIME_TEST = ''0:30:00'',
     HPC_JOB_QOS_SHORT = ''2h'',
     HPC_JOB_QOS_DEFAULT = ''normal''\<rparr>"

text \<open>The same gateway when the remote job has failed.\<close>

definition env_failed :: env where
  "env_failed = env_ok\<lparr>check_slurm_job_state := (\<lambda>i. Inr ''FAILED'')\<rparr>"

definition job1 :: DBWorkflowJob where
  "job1 = \<lparr>job_id = ''j1'', job_workspace_id = ''w1'', job_dir = ''/jobs/j1'',
            job_state = JOB_PENDING\<rparr>"

definition ws1 :: DBWorkspace where
  "ws1 = \<lparr>workspace_id = ''w1'', user_id = ''u1'', workspace_dir = ''/ws/w1'',
           workspace_mets_path = ''/ws/w1/mets.xml'', mets_basename = ''mets.xml'',
           pages_amount = 7, file_groups = [''OCR-D-IMG''], state = WS_PENDING\<rparr>"

definition wf1 :: DBWorkflow where
  "wf1 = \<lparr>workflow_id = ''f1'', workflow_script_path = ''/wf/f1.nf'', uses_mets_server = False,
           executable_steps = [''ocrd-dummy'']\<rparr>"

definition hpc1 :: DBHPCSlurmJob where
  "hpc1 = \<lparr>hpc_user_id = JStr ''u1'', workflow_job_id = JStr ''j1'', hpc_slurm_job_id = ''4711'',
            hpc_slurm_job_state = ''RUNNING'', hpc_batch_script_path = ''batch.sh'',
            hpc_slurm_workspace_path = ''/hpc/ws/j1''\<rparr>"

definition stats1 :: DBProcessingStats where
  "stats1 = \<lparr>stats_user_id = ''u1'', pages_succeed = 0, pages_failed = 0\<rparr>"

text \<open>A status worker that waits for a message; the job j1 of user u1 is pending on the
  HPC.\<close>

definition status0 :: JobStatusWorker where
  "status0 = \<lparr>store_up = True, workflow_jobs = [job1], workspaces = [ws1], workflows = [wf1],
     hpc_slurm_jobs = [hpc1], processing_stats = [stats1], trace = [],
     test_sbatch = False, current_message_delivery_tag = None, current_message_job_id = JNull,
     has_consumed_message = False\<rparr>"

definition status_msg :: "string \<rightharpoonup> jval" where
  "status_msg = [''job_id'' \<mapsto> JStr ''j1'']"

text \<open>The same worker after it has handled the status message of the job j1, whose
  remote job has completed.\<close>

definition status_after :: JobStatusWorker where
  "status_after = snd (status_callback env_ok 1 (Some status_msg) status0)"

text \<open>A submit worker that waits for its first message; the job j1 and its workspace are
  queued, and no remote job has been created.\<close>

definition submit0 :: JobSubmitWorker where
  "submit0 = \<lparr>store_up = True, workflow_jobs = [job1\<lparr>job_state := JOB_QUEUED\<rparr>],
     workspaces = [ws1\<lparr>state := WS_QUEUED\<rparr>], workflows = [wf1],
     hpc_slurm_jobs = [], processing_stats = [stats1], trace = [],
     test_sbatch = False, current_message_delivery_tag = None, current_message_job_id = JNull,
     has_consumed_message = False, current_message_user_id = JNull,
     current_message_ws_id = JNull, current_message_wf_id = JNull\<rparr>"

definition submit_msg :: "string \<rightharpoonup> jval" where
  "submit_msg = [''user_id'' \<mapsto> JStr ''u1'', ''workspace_id'' \<mapsto> JStr ''w1'',
     ''workflow_id'' \<mapsto> JStr ''f1'', ''job_id'' \<mapsto> JStr ''j1'',
     ''input_file_grp'' \<mapsto> JStr ''OCR-D-IMG'', ''remove_file_grps'' \<mapsto> JStr [],
     ''partition'' \<mapsto> JStr ''standard96'', ''cpus'' \<mapsto> JInt 4, ''ram'' \<mapsto> JInt 16]"

text \<open>The same message without the field \<^verbatim>\<open>cpus\<close>.\<close>

definition submit_msg_no_cpus :: "string \<rightharpoonup> jval" where
  "submit_msg_no_cpus = submit_msg(''cpus'' := None)"

text \<open>The submit worker after it has handled the message for the job j1 on a gateway on
  which every call succeeds.\<close>

definition submit_after :: JobSubmitWorker where
  "submit_after = snd (submit_callback env_ok 1 (Some submit_msg) submit0)"

text \<open>A gateway on which the transfer of the workspace to the HPC fails.\<close>

definition env_put_fails :: env where
  "env_put_fails = env_ok\<lparr>pack_and_put_slurm_workspace := (\<lambda>w j p. Some OtherException)\<rparr>"

text \<open>A submit worker interrupted while it transfers the workspace of the job j1 to the
  HPC.\<close>

definition submit_inflight :: JobSubmitWorker where
  "submit_inflight = submit0\<lparr>workflow_jobs := [job1\<lparr>job_state := JOB_TRANSFERRING_TO_HPC\<rparr>],
     workspaces := [ws1\<lparr>state := WS_TRANSFERRING_TO_HPC\<rparr>],
     trace := [Db_update_workspace ''w1'' WS_TRANSFERRING_TO_HPC None,
               Db_update_workflow_job ''j1'' JOB_TRANSFERRING_TO_HPC],
     current_message_delivery_tag := Some 1, current_message_job_id := JStr ''j1'',
     has_consumed_message := True, current_message_user_id := JStr ''u1'',
     current_message_ws_id := JStr ''w1'', current_message_wf_id := JStr ''f1''\<rparr>"

text \<open>A gateway on which the download of the log of the remote job fails, with an error
  that is not a \<^verbatim>\<open>ValueError\<close>.\<close>

definition env_log_fails :: env where
  "env_log_fails = env_ok\<lparr>download_slurm_job_log_file := (\<lambda>i d. Some OtherException)\<rparr>"

section \<open>Auxiliary predicates\<close>

text \<open>How far the store has come from \<open>s\<close> to \<open>s'\<close> while a status message was handled:
  no job has changed, or the job is being transferred from the HPC, or the workspace is
  ready.\<close>

definition job_progress ::
  "jval \<Rightarrow> jval \<Rightarrow> 'a world_scheme \<Rightarrow> 'b world_scheme \<Rightarrow> bool" where
  "job_progress kj kw s s' =
     (workflow_jobs s' = workflow_jobs s
      \<or> map_option job_state (find (is_job kj) (workflow_jobs s')) = Some JOB_TRANSFERRING_FROM_HPC
      \<or> map_option state (find (is_workspace kw) (workspaces s')) = Some WS_READY)"

text \<open>A read of the second \<^verbatim>\<open>try\<close> of the status worker fails: the store is unreachable,
  or the job, the workspace of the job or the handle of the remote job is missing.\<close>

definition status_read_failure :: "jval \<Rightarrow> 'a world_scheme \<Rightarrow> bool" where
  "status_read_failure jv s =
     (\<not> store_up s
      \<or> (case find (is_job jv) (workflow_jobs s) of
            None \<Rightarrow> True
          | Some wj \<Rightarrow>
              find (is_workspace (JStr (job_workspace_id wj))) (workspaces s) = None
              \<or> find (is_hpc_slurm_job jv) (hpc_slurm_jobs s) = None))"

section \<open>Facts about the store and the combinators\<close>

lemmas m_defs = thenE_def bindE_def returnE_def raiseE_def catchE_def liftE_def modifyE_def
  getE_def whenE_def emit_def hpc_call_def ignoreE_def any_Exception_def is_ValueError_def

subsection \<open>The collections\<close>

lemma find_SomeD: "find P xs = Some x \<Longrightarrow> P x"
  by (induction xs) (auto split: if_splits)

lemma find_update_first:
  "(\<And>x. P (f x) = P x) \<Longrightarrow> find P (update_first P f xs) = map_option f (find P xs)"
  by (induction xs) auto

lemma update_first_twice:
  "(\<And>x. P (f x) = P x) \<Longrightarrow> update_first P g (update_first P f xs) = update_first P (\<lambda>x. g (f x)) xs"
  by (induction xs) auto

lemma is_job_upd [simp]: "is_job k (r\<lparr>job_state := st\<rparr>) = is_job k r"
  by (simp add: is_job_def)

lemma is_workspace_upd [simp]: "is_workspace k (set_workspace st fgs r) = is_workspace k r"
  by (simp add: is_workspace_def set_workspace_def split: option.splits)

lemma is_hpc_upd [simp]: "is_hpc_slurm_job k (r\<lparr>hpc_slurm_job_state := st\<rparr>) = is_hpc_slurm_job k r"
  by (simp add: is_hpc_slurm_job_def)

lemma is_stats_upd [simp]: "is_stats k (add_stats a b r) = is_stats k r"
  by (simp add: is_stats_def add_stats_def)

lemma find_job_update [simp]:
  "find (is_job k) (update_first (is_job k) (\<lambda>r. r\<lparr>job_state := st\<rparr>) xs)
     = map_option (\<lambda>r. r\<lparr>job_state := st\<rparr>) (find (is_job k) xs)"
  by (rule find_update_first) simp

lemma find_workspace_update [simp]:
  "find (is_workspace k) (update_first (is_workspace k) (set_workspace st fgs) xs)
     = map_option (set_workspace st fgs) (find (is_workspace k) xs)"
  by (rule find_update_first) simp

lemma find_hpc_update [simp]:
  "find (is_hpc_slurm_job k) (update_first (is_hpc_slurm_job k) (\<lambda>r. r\<lparr>hpc_slurm_job_state := st\<rparr>) xs)
     = map_option (\<lambda>r. r\<lparr>hpc_slurm_job_state := st\<rparr>) (find (is_hpc_slurm_job k) xs)"
  by (rule find_update_first) simp

lemma find_stats_update [simp]:
  "find (is_stats k) (update_first (is_stats k) (add_stats a b) xs)
     = map_option (add_stats a b) (find (is_stats k) xs)"
  by (rule find_update_first) simp

subsection \<open>The operations of the store, unfolded\<close>

lemma get_workflow_job_eq:
  "sync_db_get_workflow_job k s =
     (if store_up s then
        (case find (is_job k) (workflow_jobs s) of None \<Rightarrow> (Inl RuntimeError, s) | Some r \<Rightarrow> (Inr r, s))
      else (Inl OtherException, s))"
  by (simp add: sync_db_get_workflow_job_def store_guard_def find_one_def m_defs split: option.splits)

lemma get_workspace_eq:
  "sync_db_get_workspace k s =
     (if store_up s then
        (case find (is_workspace k) (workspaces s) of None \<Rightarrow> (Inl RuntimeError, s) | Some r \<Rightarrow> (Inr r, s))
      else (Inl OtherException, s))"
  by (simp add: sync_db_get_workspace_def store_guard_def find_one_def m_defs split: option.splits)

lemma get_workflow_eq:
  "sync_db_get_workflow k s =
     (if store_up s then
        (case find (is_workflow k) (workflows s) of None \<Rightarrow> (Inl RuntimeError, s) | Some r \<Rightarrow> (Inr r, s))
      else (Inl OtherException, s))"
  by (simp add: sync_db_get_workflow_def store_guard_def find_one_def m_defs split: option.splits)

lemma get_hpc_slurm_job_eq:
  "sync_db_get_hpc_slurm_job k s =
     (if store_up s then
        (case find (is_hpc_slurm_job k) (hpc_slurm_jobs s) of None \<Rightarrow> (Inl RuntimeError, s) | Some r \<Rightarrow> (Inr r, s))
      else (Inl OtherException, s))"
  by (simp add: sync_db_get_hpc_slurm_job_def store_guard_def find_one_def m_defs split: option.splits)

lemma update_workflow_job_eq:
  "sync_db_update_workflow_job k st s =
     (if store_up s then
        (case find (is_job k) (workflow_jobs s) of
           None \<Rightarrow> (Inl RuntimeError, s)
         | Some r \<Rightarrow> (Inr (r\<lparr>job_state := st\<rparr>),
             s\<lparr>workflow_jobs := update_first (is_job k) (\<lambda>r. r\<lparr>job_state := st\<rparr>) (workflow_jobs s),
               trace := trace s @ [Db_update_workflow_job (job_id r) st]\<rparr>))
      else (Inl OtherException, s))"
  by (simp add: sync_db_update_workflow_job_def get_workflow_job_eq m_defs split: option.splits)

lemma update_workspace_eq:
  "sync_db_update_workspace k st fgs s =
     (if store_up s then
        (case find (is_workspace k) (workspaces s) of
           None \<Rightarrow> (Inl RuntimeError, s)
         | Some r \<Rightarrow> (Inr (set_workspace st fgs r),
             s\<lparr>workspaces := update_first (is_workspace k) (set_workspace st fgs) (workspaces s),
               trace := trace s @ [Db_update_workspace (workspace_id r) st fgs]\<rparr>))
      else (Inl OtherException, s))"
  by (simp add: sync_db_update_workspace_def get_workspace_eq m_defs split: option.splits)

lemma update_hpc_slurm_job_eq:
  "sync_db_update_hpc_slurm_job k st s =
     (if store_up s then
        (case find (is_hpc_slurm_job k) (hpc_slurm_jobs s) of
           None \<Rightarrow> (Inl RuntimeError, s)
         | Some r \<Rightarrow> (Inr (r\<lparr>hpc_slurm_job_state := st\<rparr>),
             s\<lparr>hpc_slurm_jobs := update_first (is_hpc_slurm_job k) (\<lambda>r. r\<lparr>hpc_slurm_job_state := st\<rparr>) (hpc_slurm_jobs s),
               trace := trace s @ [Db_update_hpc_slurm_job k st]\<rparr>))
      else (Inl OtherException, s))"
  by (simp add: sync_db_update_hpc_slurm_job_def get_hpc_slurm_job_eq m_defs split: option.splits)

lemma increase_processing_stats_eq:
  "sync_db_increase_processing_stats k ps pf s =
     (if store_up s then
        (case find (is_stats k) (processing_stats s) of
           None \<Rightarrow> (Inl RuntimeError, s)
         | Some r \<Rightarrow> (Inr (add_stats ps pf r),
             s\<lparr>processing_stats := update_first (is_stats k) (add_stats ps pf) (processing_stats s),
               trace := trace s @ [Db_increase_processing_stats (stats_user_id r) ps pf]\<rparr>))
      else (Inl OtherException, s))"
  by (simp add: sync_db_increase_processing_stats_def store_guard_def find_one_def m_defs split: option.splits)

lemmas db_eqs = get_workflow_job_eq get_workspace_eq get_workflow_eq get_hpc_slurm_job_eq
  update_workflow_job_eq update_workspace_eq update_hpc_slurm_job_eq increase_processing_stats_eq

lemmas status_defs = status_callback_def status_parse_def status_reads_def status_process_def
  handle_hpc_and_workflow_states_def on_success_def on_failed_def
  status_handle_message_failure_def download_results_from_hpc_def extract_updated_file_groups_def
  loads_def getitem_def basic_ack_def ack_message_def

lemma update_workspace_twice [simp]:
  "update_first (is_workspace k) (set_workspace st2 fg2)
     (update_first (is_workspace k) (set_workspace st1 None) xs)
   = update_first (is_workspace k) (set_workspace st2 fg2) xs"
  by (induction xs) (auto simp: set_workspace_def is_workspace_def split: option.splits)

lemma update_job_twice [simp]:
  "update_first (is_job k) (\<lambda>r. r\<lparr>job_state := st2\<rparr>)
     (update_first (is_job k) (\<lambda>r. r\<lparr>job_state := st1\<rparr>) xs)
   = update_first (is_job k) (\<lambda>r. r\<lparr>job_state := st2\<rparr>) xs"
  by (induction xs) auto

lemmas is_defs = is_job_def is_workspace_def is_workflow_def is_hpc_slurm_job_def is_stats_def

subsection \<open>How far a status message gets\<close>

lemma state_set_workspace [simp]: "state (set_workspace st fg r) = st"
  by (simp add: set_workspace_def split: option.splits)

lemma on_failed_progress:
  assumes "current_message_job_id s = JStr (job_id wj)"
  shows "case on_failed en h wj ws s of (r, s') \<Rightarrow>
           job_progress (JStr (job_id wj)) (JStr (workspace_id ws)) s s'"
  using assms
  by (simp add: on_failed_def m_defs db_eqs job_progress_def
      split: option.split sum.split prod.split)

lemma on_success_progress:
  assumes "current_message_job_id s = JStr (job_id wj)"
  shows "case on_success en h wj ws s of (r, s') \<Rightarrow>
           job_progress (JStr (job_id wj)) (JStr (workspace_id ws)) s s'"
  using assms
  by (simp add: on_success_def m_defs db_eqs job_progress_def download_results_from_hpc_def
      extract_updated_file_groups_def
      split: option.split sum.split prod.split)

lemma on_success_progress':
  assumes "on_success en h wj ws t = (r, s')"
    and "workflow_jobs t = workflow_jobs s"
    and "current_message_job_id t = JStr (job_id wj)"
  shows "job_progress (JStr (job_id wj)) (JStr (workspace_id ws)) s s'"
  using on_success_progress[where s = t and wj = wj and en = en and h = h and ws = ws] assms
  by (simp add: job_progress_def)

lemma on_failed_progress':
  assumes "on_failed en h wj ws t = (r, s')"
    and "workflow_jobs t = workflow_jobs s"
    and "current_message_job_id t = JStr (job_id wj)"
  shows "job_progress (JStr (job_id wj)) (JStr (workspace_id ws)) s s'"
  using on_failed_progress[where s = t and wj = wj and en = en and h = h and ws = ws] assms
  by (simp add: job_progress_def)

lemma job_progress_refl:
  "workflow_jobs t = workflow_jobs s \<Longrightarrow> job_progress kj kw s t"
  by (simp add: job_progress_def)

lemma handle_states_progress:
  assumes "current_message_job_id s = JStr (job_id wj)"
  shows "case handle_hpc_and_workflow_states en h wj ws s of (r, s') \<Rightarrow>
           job_progress (JStr (job_id wj)) (JStr (workspace_id ws)) s s'"
  using assms
  by (auto simp add: handle_hpc_and_workflow_states_def m_defs db_eqs job_progress_refl
      split: option.split sum.split prod.split
      intro: on_success_progress' on_failed_progress')

lemma handle_states_progress':
  assumes "handle_hpc_and_workflow_states en h wj ws t = (r, s')"
    and "workflow_jobs t = workflow_jobs s"
    and "current_message_job_id t = JStr (job_id wj)"
  shows "job_progress (JStr (job_id wj)) (JStr (workspace_id ws)) s s'"
  using handle_states_progress[where s = t and wj = wj and en = en and h = h and ws = ws] assms
  by (simp add: job_progress_def)

lemma job_progress_upd [simp]:
  "job_progress kj kw s (t\<lparr>trace := tr\<rparr>) = job_progress kj kw s t"
  "job_progress kj kw s (t\<lparr>has_consumed_message := b\<rparr>) = job_progress kj kw s t"
  "job_progress kj kw s (t\<lparr>current_message_delivery_tag := dt\<rparr>) = job_progress kj kw s t"
  "job_progress kj kw s (t\<lparr>current_message_job_id := ji\<rparr>) = job_progress kj kw s t"
  by (simp_all add: job_progress_def)

lemma status_callback_progress:
  assumes body: "body = Some d" "d ''job_id'' = Some (JStr j)"
    and job: "find (is_job (JStr j)) (workflow_jobs s) = Some wj"
  shows "job_progress (JStr j) (JStr (job_workspace_id wj)) s (snd (status_callback en tag body s))"
proof -
  have j: "job_id wj = j"
    using find_SomeD[OF job] by (simp add: is_job_def)
  have step: "job_progress (JStr j) (JStr (job_workspace_id wj)) s s'"
    if "handle_hpc_and_workflow_states en h wj ws t = (r, s')"
      and "workflow_jobs t = workflow_jobs s" "current_message_job_id t = JStr j"
      and "find (is_workspace (JStr (job_workspace_id wj))) (workspaces s) = Some ws"
    for h ws t r s'
  proof -
    have "workspace_id ws = job_workspace_id wj"
      using find_SomeD[OF that(4)] by (simp add: is_workspace_def)
    then show ?thesis
      using handle_states_progress'[OF that(1), of s] that(2,3) j by simp
  qed
  show ?thesis
    using assms
    by (auto simp add: status_callback_def status_parse_def status_reads_def status_process_def
        status_handle_message_failure_def loads_def getitem_def basic_ack_def ack_message_def
        m_defs db_eqs job_progress_refl
        split: option.split sum.split prod.split
        intro: step)
qed


subsection \<open>The submit worker, step by step\<close>

lemmas submit_defs = submit_callback_def submit_parse_def submit_reads_def submit_trigger_def
  submit_finish_def prepare_and_trigger_slurm_job_def stage_workspace_def submit_slurm_job_def
  save_hpc_slurm_job_def submit_handle_message_failure_def submit_signal_handler_def
  join_job_def loads_def getitem_def basic_ack_def ack_message_def

lemma create_hpc_slurm_job_eq:
  "sync_db_create_hpc_slurm_job en uid jid sid script path s =
     (if store_up s then
        (Inr \<lparr>hpc_user_id = uid, workflow_job_id = jid, hpc_slurm_job_id = sid,
               hpc_slurm_job_state = hpc_slurm_job_state_default en,
               hpc_batch_script_path = script, hpc_slurm_workspace_path = path\<rparr>,
         s\<lparr>hpc_slurm_jobs := hpc_slurm_jobs s @
              [\<lparr>hpc_user_id = uid, workflow_job_id = jid, hpc_slurm_job_id = sid,
                hpc_slurm_job_state = hpc_slurm_job_state_default en,
                hpc_batch_script_path = script, hpc_slurm_workspace_path = path\<rparr>],
            trace := trace s @ [Db_create_hpc_slurm_job jid sid]\<rparr>)
      else (Inl OtherException, s))"
  by (simp add: sync_db_create_hpc_slurm_job_def store_guard_def m_defs)

lemma submit_failure_ready:
  assumes "submit_handle_message_failure False True t = (Inr (), t')"
  shows "map_option state (find (is_workspace (current_message_ws_id t)) (workspaces t')) = Some WS_READY"
  using assms
  by (auto simp add: submit_handle_message_failure_def ack_message_def m_defs db_eqs
      split: option.splits sum.splits prod.splits if_splits)

lemma submit_finish_pending:
  assumes "submit_finish tag t = (Inr (), t')"
  shows "map_option job_state (find (is_job (current_message_job_id t)) (workflow_jobs t')) = Some JOB_PENDING"
  using assms
  by (auto simp add: submit_finish_def basic_ack_def m_defs db_eqs
      split: option.splits sum.splits prod.splits if_splits)

lemma prepare_frame:
  assumes "prepare_and_trigger_slurm_job en a1 a2 a3 a4 a5 a6 a7 a8 a9 a10 a11 a12 a13 a14 t = (r, t')"
  shows "current_message_ws_id t' = current_message_ws_id t
    \<and> current_message_job_id t' = current_message_job_id t"
  using assms
  by (auto simp add: prepare_and_trigger_slurm_job_def stage_workspace_def submit_slurm_job_def
      save_hpc_slurm_job_def join_job_def m_defs db_eqs create_hpc_slurm_job_eq
      split: option.splits sum.splits prod.splits if_splits jval.splits)

lemma submit_trigger_outcome:
  assumes "submit_trigger en rq wfl ws t = (r, t')"
  shows "(r = Inr False \<longrightarrow>
            map_option state (find (is_workspace (current_message_ws_id t)) (workspaces t')) = Some WS_READY)
       \<and> (r = Inr True \<longrightarrow> current_message_job_id t' = current_message_job_id t)"
  using assms
  by (auto simp add: submit_trigger_def m_defs
      split: sum.splits prod.splits if_splits
      dest!: prepare_frame submit_failure_ready)

lemma submit_reads_outcome:
  assumes "submit_reads t = (r, t')"
  shows "(r = Inr None \<longrightarrow>
            map_option state (find (is_workspace (current_message_ws_id t)) (workspaces t')) = Some WS_READY)
       \<and> (\<forall>x. r = Inr (Some x) \<longrightarrow> t' = t)"
  using assms
  by (auto simp add: submit_reads_def m_defs db_eqs
      split: sum.splits prod.splits if_splits option.splits
      dest!: submit_failure_ready)

lemma submit_parse_ok:
  assumes body: "body = Some d"
      "d ''user_id'' = Some u" "d ''workspace_id'' = Some wv"
      "d ''workflow_id'' = Some fv" "d ''job_id'' = Some jv"
      "d ''input_file_grp'' = Some ifg" "d ''remove_file_grps'' = Some rfg"
      "d ''partition'' = Some part" "d ''cpus'' = Some c" "d ''ram'' = Some r"
    and ints: "py_int en c = Inr cpus" "py_int en r = Inr ram"
  shows "submit_parse en body t =
     (Inr (Some \<lparr>input_file_grp = ifg, remove_file_grps = rfg, slurm_job_partition = part,
                  slurm_job_cpus = cpus, slurm_job_ram = ram, nf_process_forks = cpus\<rparr>),
      t\<lparr>current_message_user_id := u, current_message_ws_id := wv,
        current_message_wf_id := fv, current_message_job_id := jv\<rparr>)"
  using assms
  by (simp add: submit_parse_def loads_def getitem_def m_defs)


subsection \<open>A job that has become terminal\<close>

lemma status_terminal_ready:
  assumes body: "body = Some d" "d ''job_id'' = Some (JStr j)"
    and job: "find (is_job (JStr j)) (workflow_jobs s) = Some wj"
    and jobafter: "find (is_job (JStr j)) (workflow_jobs (snd (status_callback en tag body s))) = Some wj'"
    and terminal: "job_state wj' = JOB_SUCCESS \<or> job_state wj' = JOB_FAILED"
    and chg: "job_state wj' \<noteq> job_state wj"
  shows "map_option state (find (is_workspace (JStr (job_workspace_id wj)))
           (workspaces (snd (status_callback en tag body s)))) = Some WS_READY"
  using status_callback_progress[OF body job, of en tag] job jobafter terminal chg
  by (auto simp: job_progress_def)

lemma submit_terminal_ready:
  assumes body: "body = Some d"
      "d ''user_id'' = Some u" "d ''workspace_id'' = Some wv"
      "d ''workflow_id'' = Some fv" "d ''job_id'' = Some jv"
      "d ''input_file_grp'' = Some ifg" "d ''remove_file_grps'' = Some rfg"
      "d ''partition'' = Some part" "d ''cpus'' = Some c" "d ''ram'' = Some r"
    and ints: "py_int en c = Inr cpus" "py_int en r = Inr ram"
    and ret: "fst (submit_callback en tag body s) = Inr ()"
    and jobafter: "find (is_job jv) (workflow_jobs (snd (submit_callback en tag body s))) = Some wj'"
    and terminal: "job_state wj' = JOB_SUCCESS \<or> job_state wj' = JOB_FAILED"
  shows "map_option state (find (is_workspace wv)
           (workspaces (snd (submit_callback en tag body s)))) = Some WS_READY"
proof -
  let ?t = "s\<lparr>current_message_delivery_tag := Some tag, has_consumed_message := True,
              current_message_user_id := u, current_message_ws_id := wv,
              current_message_wf_id := fv, current_message_job_id := jv\<rparr>"
  let ?rq = "\<lparr>input_file_grp = ifg, remove_file_grps = rfg, slurm_job_partition = part,
                  slurm_job_cpus = cpus, slurm_job_ram = ram, nf_process_forks = cpus\<rparr>"
  have cb: "submit_callback en tag body s =
      (case submit_reads ?t of
         (Inl e, t1) \<Rightarrow> (Inl e, t1)
       | (Inr None, t1) \<Rightarrow> (Inr (), t1)
       | (Inr (Some (wfl, ws)), t1) \<Rightarrow>
           (case submit_trigger en ?rq wfl ws t1 of
              (Inl e, t2) \<Rightarrow> (Inl e, t2)
            | (Inr ok, t2) \<Rightarrow> if ok then submit_finish tag t2 else (Inr (), t2)))"
    by (simp add: submit_callback_def submit_parse_ok[OF body ints] m_defs
        split: prod.splits sum.splits option.splits)
  obtain r1 t1 where r1: "submit_reads ?t = (r1, t1)"
    by (cases "submit_reads ?t")
  note o1 = submit_reads_outcome[OF r1]
  show ?thesis
  proof (cases r1)
    case (Inl e)
    then show ?thesis using ret cb r1 by simp
  next
    case (Inr x)
    show ?thesis
    proof (cases x)
      case None
      then show ?thesis using Inr cb r1 o1 by simp
    next
      case (Some p)
      obtain wfl ws where p: "p = (wfl, ws)" by (cases p)
      have t1: "t1 = ?t" using o1 Inr Some by simp
      obtain r2 t2 where r2: "submit_trigger en ?rq wfl ws t1 = (r2, t2)"
        by (cases "submit_trigger en ?rq wfl ws t1")
      note o2 = submit_trigger_outcome[OF r2]
      have cb2: "submit_callback en tag body s =
          (case r2 of Inl e \<Rightarrow> (Inl e, t2)
           | Inr ok \<Rightarrow> if ok then submit_finish tag t2 else (Inr (), t2))"
        using cb r1 Inr Some p r2 by simp
      show ?thesis
      proof (cases r2)
        case (Inl e)
        then show ?thesis using ret cb2 by simp
      next
        case (Inr ok)
        show ?thesis
        proof (cases ok)
          case False
          then show ?thesis using Inr cb2 o2 t1 by simp
        next
          case True
          obtain r3 t3 where r3: "submit_finish tag t2 = (r3, t3)"
            by (cases "submit_finish tag t2")
          have "r3 = Inr ()" using ret cb2 Inr True r3 by simp
          then have "map_option job_state (find (is_job (current_message_job_id t2)) (workflow_jobs t3))
                = Some JOB_PENDING"
            using submit_finish_pending[of tag t2 t3] r3 by simp
          moreover have "current_message_job_id t2 = jv"
            using o2 Inr True t1 by simp
          moreover have "snd (submit_callback en tag body s) = t3"
            using cb2 Inr True r3 by simp
          ultimately show ?thesis
            using jobafter terminal by auto
        qed
      qed
    qed
  qed
qed

subsection \<open>Read failures\<close>

lemma status_read_failure_iff:
  "status_read_failure jv s \<longleftrightarrow>
     (\<exists>e. fst ((bindE (sync_db_get_workflow_job jv) (\<lambda>wj.
              bindE (sync_db_get_workspace (JStr (job_workspace_id wj))) (\<lambda>ws.
              sync_db_get_hpc_slurm_job jv))) s) = Inl e)"
  by (auto simp add: status_read_failure_def m_defs db_eqs split: option.splits)

lemma status_read_failure_ack:
  assumes "body = Some d" "d ''job_id'' = Some jv" "status_read_failure jv s"
  shows "fst (status_callback en tag body s) = Inr ()
    \<and> trace (snd (status_callback en tag body s)) = trace s @ [Ack_message (Some tag)]
    \<and> workflow_jobs (snd (status_callback en tag body s)) = workflow_jobs s
    \<and> workspaces (snd (status_callback en tag body s)) = workspaces s
    \<and> hpc_slurm_jobs (snd (status_callback en tag body s)) = hpc_slurm_jobs s
    \<and> processing_stats (snd (status_callback en tag body s)) = processing_stats s"
  using assms
  by (auto simp add: status_read_failure_def status_callback_def status_parse_def status_reads_def
      status_handle_message_failure_def loads_def getitem_def ack_message_def m_defs db_eqs
      split: option.splits)

lemma submit_workflow_missing:
  assumes up: "store_up s"
    and body: "body = Some d"
      "d ''user_id'' = Some u" "d ''workspace_id'' = Some (JStr w)"
      "d ''workflow_id'' = Some fv" "d ''job_id'' = Some (JStr j)"
      "d ''input_file_grp'' = Some ifg" "d ''remove_file_grps'' = Some rfg"
      "d ''partition'' = Some part" "d ''cpus'' = Some c" "d ''ram'' = Some r"
    and ints: "py_int en c = Inr cpus" "py_int en r = Inr ram"
    and nowf: "find (is_workflow fv) (workflows s) = None"
    and job: "find (is_job (JStr j)) (workflow_jobs s) = Some wj"
    and ws: "find (is_workspace (JStr w)) (workspaces s) = Some ws"
  shows "fst (submit_callback en tag body s) = Inr ()
    \<and> find (is_job (JStr j)) (workflow_jobs (snd (submit_callback en tag body s)))
        = Some (wj\<lparr>job_state := JOB_FAILED\<rparr>)
    \<and> find (is_workspace (JStr w)) (workspaces (snd (submit_callback en tag body s)))
        = Some (ws\<lparr>state := WS_READY\<rparr>)
    \<and> trace (snd (submit_callback en tag body s)) = trace s @
        [Db_update_workflow_job j JOB_FAILED, Db_update_workspace w WS_READY None,
         Ack_message (Some tag)]"
proof -
  have j: "job_id wj = j"
    using find_SomeD[OF job] by (simp add: is_job_def)
  have w: "workspace_id ws = w"
    using find_SomeD[OF ws] by (simp add: is_workspace_def)
  show ?thesis
    using assms j w
    by (simp add: submit_callback_def submit_parse_def submit_reads_def loads_def getitem_def
        submit_handle_message_failure_def ack_message_def m_defs db_eqs set_workspace_def)
qed

subsection \<open>The example inputs\<close>

lemmas ex_defs = env_ok_def env_failed_def job1_def ws1_def wf1_def hpc1_def
  stats1_def status0_def status_msg_def submit0_def submit_msg_def submit_msg_no_cpus_def env_put_fails_def submit_inflight_def env_log_fails_def

lemma status_after_eq:
  "status_after = status0\<lparr>workflow_jobs := [job1\<lparr>job_state := JOB_SUCCESS\<rparr>],
     workspaces := [ws1\<lparr>file_groups := [''OCR-D-IMG'', ''OCR-D-OCR''], state := WS_READY\<rparr>],
     hpc_slurm_jobs := [hpc1\<lparr>hpc_slurm_job_state := ''COMPLETED''\<rparr>],
     processing_stats := [stats1\<lparr>pages_succeed := 7\<rparr>],
     trace := [Db_update_hpc_slurm_job (JStr ''j1'') ''COMPLETED'',
        Hpc_download_slurm_job_log_file ''4711'' ''/jobs/j1'',
        Db_update_workspace ''w1'' WS_TRANSFERRING_FROM_HPC None,
        Db_update_workflow_job ''j1'' JOB_TRANSFERRING_FROM_HPC,
        Hpc_get_and_unpack_slurm_workspace ''/ws/w1'' ''/jobs/j1'',
        Db_update_workspace ''w1'' WS_READY (Some [''OCR-D-IMG'', ''OCR-D-OCR'']),
        Db_update_workflow_job ''j1'' JOB_SUCCESS,
        Db_increase_processing_stats ''u1'' 7 0, Basic_ack 1],
     current_message_delivery_tag := Some 1, current_message_job_id := JStr ''j1''\<rparr>"
  by (simp add: status_after_def ex_defs status_defs m_defs db_eqs set_workspace_def
      add_stats_def is_defs)

section \<open>JobStatusWorker: the transition to FAILED\<close>

text \<open>
  Claim C7. A status message is handled: its job, the workspace of the job, the handle of
  the remote job and the statistics of the workspace's user are in the store, the gateway
  reports a remote state that converts to FAILED, the job is not FAILED yet, and the log
  of the remote job can be downloaded. Then the callback returns, and its effects are, in
  this order: the new remote state is stored if it has changed, the log is downloaded,
  the workspace is set READY without any file groups given, the job is set FAILED,
  \<open>pages_failed\<close> is increased by the page count of the workspace, and the message is
  acknowledged. Afterwards the workspace is the old one but for its state READY (its
  file groups are unchanged), the job is FAILED, and \<open>pages_failed\<close> of the user has
  grown by exactly the page count of the workspace.
\<close>

theorem status_failed_transition:
  assumes up: "store_up s"
    and body: "body = Some d" "d ''job_id'' = Some (JStr j)"
    and job: "find (is_job (JStr j)) (workflow_jobs s) = Some wj"
    and ws: "find (is_workspace (JStr (job_workspace_id wj))) (workspaces s) = Some ws"
    and hpc: "find (is_hpc_slurm_job (JStr j)) (hpc_slurm_jobs s) = Some h"
    and stats: "find (is_stats (JStr (user_id ws))) (processing_stats s) = Some st"
    and poll: "check_slurm_job_state en (hpc_slurm_job_id h) = Inr new"
    and conv: "convert_from_slurm_job en new = Inr JOB_FAILED"
    and old: "job_state wj \<noteq> JOB_FAILED"
    and log: "download_slurm_job_log_file en (hpc_slurm_job_id h) (job_dir wj) = None"
  shows "fst (status_callback en tag body s) = Inr ()
    \<and> trace (snd (status_callback en tag body s)) = trace s @
        (if hpc_slurm_job_state h \<noteq> new then [Db_update_hpc_slurm_job (JStr j) new] else []) @
        [Hpc_download_slurm_job_log_file (hpc_slurm_job_id h) (job_dir wj),
         Db_update_workspace (job_workspace_id wj) WS_READY None,
         Db_update_workflow_job j JOB_FAILED,
         Db_increase_processing_stats (user_id ws) 0 (pages_amount ws),
         Basic_ack tag]
    \<and> find (is_workspace (JStr (job_workspace_id wj))) (workspaces (snd (status_callback en tag body s)))
        = Some (ws\<lparr>state := WS_READY\<rparr>)
    \<and> find (is_job (JStr j)) (workflow_jobs (snd (status_callback en tag body s)))
        = Some (wj\<lparr>job_state := JOB_FAILED\<rparr>)
    \<and> find (is_stats (JStr (user_id ws))) (processing_stats (snd (status_callback en tag body s)))
        = Some (st\<lparr>pages_failed := pages_failed st + pages_amount ws\<rparr>)"
proof -
  have j: "job_id wj = j"
    using find_SomeD[OF job] by (simp add: is_job_def)
  have w: "workspace_id ws = job_workspace_id wj"
    using find_SomeD[OF ws] by (simp add: is_workspace_def)
  have u: "stats_user_id st = user_id ws"
    using find_SomeD[OF stats] by (simp add: is_stats_def)
  show ?thesis
    using assms j w u
    by (simp add: status_defs m_defs db_eqs set_workspace_def add_stats_def)
qed

text \<open>The theorem at the job j1, whose remote job has failed: 7 pages are counted as
  failed.\<close>

theorem status_failed_transition_witness:
  "fst (status_callback env_failed 1 (Some status_msg) status0) = Inr ()
   \<and> map state (workspaces (snd (status_callback env_failed 1 (Some status_msg) status0))) = [WS_READY]
   \<and> map file_groups (workspaces (snd (status_callback env_failed 1 (Some status_msg) status0)))
       = [[''OCR-D-IMG'']]
   \<and> map job_state (workflow_jobs (snd (status_callback env_failed 1 (Some status_msg) status0)))
       = [JOB_FAILED]
   \<and> find (is_stats (JStr ''u1''))
        (processing_stats (snd (status_callback env_failed 1 (Some status_msg) status0)))
       = Some (stats1\<lparr>pages_failed := 7\<rparr>)"
proof -
  have "fst (status_callback env_failed 1 (Some status_msg) status0) = Inr ()
    \<and> trace (snd (status_callback env_failed 1 (Some status_msg) status0)) = trace status0 @
        (if hpc_slurm_job_state hpc1 \<noteq> ''FAILED''
         then [Db_update_hpc_slurm_job (JStr ''j1'') ''FAILED''] else []) @
        [Hpc_download_slurm_job_log_file (hpc_slurm_job_id hpc1) (job_dir job1),
         Db_update_workspace (job_workspace_id job1) WS_READY None,
         Db_update_workflow_job ''j1'' JOB_FAILED,
         Db_increase_processing_stats (user_id ws1) 0 (pages_amount ws1),
         Basic_ack 1]
    \<and> find (is_workspace (JStr (job_workspace_id job1)))
         (workspaces (snd (status_callback env_failed 1 (Some status_msg) status0)))
        = Some (ws1\<lparr>state := WS_READY\<rparr>)
    \<and> find (is_job (JStr ''j1''))
         (workflow_jobs (snd (status_callback env_failed 1 (Some status_msg) status0)))
        = Some (job1\<lparr>job_state := JOB_FAILED\<rparr>)
    \<and> find (is_stats (JStr (user_id ws1)))
         (processing_stats (snd (status_callback env_failed 1 (Some status_msg) status0)))
        = Some (stats1\<lparr>pages_failed := pages_failed stats1 + pages_amount ws1\<rparr>)"
    by (rule status_failed_transition[where d = status_msg])
       (simp_all add: ex_defs is_job_def is_workspace_def is_hpc_slurm_job_def is_stats_def)
  then show ?thesis
    by (simp add: ex_defs status_defs m_defs db_eqs set_workspace_def add_stats_def
        is_job_def is_workspace_def is_hpc_slurm_job_def is_stats_def)
qed

section \<open>JobStatusWorker: the transition to SUCCESS\<close>

text \<open>
  Claim C6. A status message is handled: its job, the workspace of the job, the handle of
  the remote job and the statistics of the workspace's user are in the store, the gateway
  reports a remote state that converts to SUCCESS, the job is not SUCCESS yet, and the
  log and the result workspace can be fetched. Whether the METS of the workspace can be
  read (\<open>r\<close> is \<open>Inr\<close> of its file groups) or not (\<open>r\<close> is \<open>Inl\<close> of any exception), the
  callback returns, and its effects are, in this order: the new remote state is stored if
  it has changed, the log is downloaded, workspace and job are set to the state of
  transferring from the HPC, the result workspace is fetched and unpacked, the workspace
  is set READY with the file groups read from the METS, or with the marker
  \<^verbatim>\<open>CORRUPTED FILE GROUPS\<close> when the METS cannot be read, the job is set SUCCESS,
  \<open>pages_succeed\<close> is increased by the page count of the workspace, and the message is
  acknowledged.
\<close>

theorem status_success_transition:
  assumes up: "store_up s"
    and body: "body = Some d" "d ''job_id'' = Some (JStr j)"
    and job: "find (is_job (JStr j)) (workflow_jobs s) = Some wj"
    and ws: "find (is_workspace (JStr (job_workspace_id wj))) (workspaces s) = Some ws"
    and hpc: "find (is_hpc_slurm_job (JStr j)) (hpc_slurm_jobs s) = Some h"
    and stats: "find (is_stats (JStr (user_id ws))) (processing_stats s) = Some st"
    and poll: "check_slurm_job_state en (hpc_slurm_job_id h) = Inr new"
    and conv: "convert_from_slurm_job en new = Inr JOB_SUCCESS"
    and old: "job_state wj \<noteq> JOB_SUCCESS"
    and log: "download_slurm_job_log_file en (hpc_slurm_job_id h) (job_dir wj) = None"
    and get: "get_and_unpack_slurm_workspace en (workspace_dir ws) (job_dir wj) = None"
    and mets: "workspace_from_url en (workspace_mets_path ws) (mets_basename ws) = r"
  shows "fst (status_callback en tag body s) = Inr ()
    \<and> trace (snd (status_callback en tag body s)) = trace s @
        (if hpc_slurm_job_state h \<noteq> new then [Db_update_hpc_slurm_job (JStr j) new] else []) @
        [Hpc_download_slurm_job_log_file (hpc_slurm_job_id h) (job_dir wj),
         Db_update_workspace (job_workspace_id wj) WS_TRANSFERRING_FROM_HPC None,
         Db_update_workflow_job j JOB_TRANSFERRING_FROM_HPC,
         Hpc_get_and_unpack_slurm_workspace (workspace_dir ws) (job_dir wj),
         Db_update_workspace (job_workspace_id wj) WS_READY
           (Some (case r of Inl e \<Rightarrow> [''CORRUPTED FILE GROUPS''] | Inr g \<Rightarrow> g)),
         Db_update_workflow_job j JOB_SUCCESS,
         Db_increase_processing_stats (user_id ws) (pages_amount ws) 0,
         Basic_ack tag]
    \<and> find (is_workspace (JStr (job_workspace_id wj))) (workspaces (snd (status_callback en tag body s)))
        = Some (ws\<lparr>file_groups := (case r of Inl e \<Rightarrow> [''CORRUPTED FILE GROUPS''] | Inr g \<Rightarrow> g),
                  state := WS_READY\<rparr>)
    \<and> find (is_job (JStr j)) (workflow_jobs (snd (status_callback en tag body s)))
        = Some (wj\<lparr>job_state := JOB_SUCCESS\<rparr>)
    \<and> find (is_stats (JStr (user_id ws))) (processing_stats (snd (status_callback en tag body s)))
        = Some (st\<lparr>pages_succeed := pages_succeed st + pages_amount ws\<rparr>)"
proof -
  have j: "job_id wj = j"
    using find_SomeD[OF job] by (simp add: is_job_def)
  have w: "workspace_id ws = job_workspace_id wj"
    using find_SomeD[OF ws] by (simp add: is_workspace_def)
  have u: "stats_user_id st = user_id ws"
    using find_SomeD[OF stats] by (simp add: is_stats_def)
  show ?thesis
    using assms j w u
    by (cases r) (simp_all add: status_defs m_defs db_eqs set_workspace_def add_stats_def)
qed

text \<open>The theorem at the job j1 when the METS of its workspace cannot be read: the
  workspace is READY with the marker, and 7 pages are counted as succeeded.\<close>

theorem status_success_transition_witness:
  "fst (status_callback (env_ok\<lparr>workspace_from_url := (\<lambda>u b. Inl OtherException)\<rparr>) 1
          (Some status_msg) status0) = Inr ()
   \<and> map state (workspaces (snd (status_callback
        (env_ok\<lparr>workspace_from_url := (\<lambda>u b. Inl OtherException)\<rparr>) 1 (Some status_msg) status0)))
       = [WS_READY]
   \<and> map file_groups (workspaces (snd (status_callback
        (env_ok\<lparr>workspace_from_url := (\<lambda>u b. Inl OtherException)\<rparr>) 1 (Some status_msg) status0)))
       = [[''CORRUPTED FILE GROUPS'']]
   \<and> map job_state (workflow_jobs (snd (status_callback
        (env_ok\<lparr>workspace_from_url := (\<lambda>u b. Inl OtherException)\<rparr>) 1 (Some status_msg) status0)))
       = [JOB_SUCCESS]
   \<and> find (is_stats (JStr ''u1'')) (processing_stats (snd (status_callback
        (env_ok\<lparr>workspace_from_url := (\<lambda>u b. Inl OtherException)\<rparr>) 1 (Some status_msg) status0)))
       = Some (stats1\<lparr>pages_succeed := 7\<rparr>)"
proof -
  let ?en = "env_ok\<lparr>workspace_from_url := (\<lambda>u b. Inl OtherException)\<rparr>"
  let ?s' = "snd (status_callback ?en 1 (Some status_msg) status0)"
  have "fst (status_callback ?en 1 (Some status_msg) status0) = Inr ()
    \<and> trace ?s' = trace status0 @
        (if hpc_slurm_job_state hpc1 \<noteq> ''COMPLETED''
         then [Db_update_hpc_slurm_job (JStr ''j1'') ''COMPLETED''] else []) @
        [Hpc_download_slurm_job_log_file (hpc_slurm_job_id hpc1) (job_dir job1),
         Db_update_workspace (job_workspace_id job1) WS_TRANSFERRING_FROM_HPC None,
         Db_update_workflow_job ''j1'' JOB_TRANSFERRING_FROM_HPC,
         Hpc_get_and_unpack_slurm_workspace (workspace_dir ws1) (job_dir job1),
         Db_update_workspace (job_workspace_id job1) WS_READY
           (Some (case (Inl OtherException :: exn + string list) of
                    Inl e \<Rightarrow> [''CORRUPTED FILE GROUPS''] | Inr g \<Rightarrow> g)),
         Db_update_workflow_job ''j1'' JOB_SUCCESS,
         Db_increase_processing_stats (user_id ws1) (pages_amount ws1) 0,
         Basic_ack 1]
    \<and> find (is_workspace (JStr (job_workspace_id job1))) (workspaces ?s')
        = Some (ws1\<lparr>file_groups := (case (Inl OtherException :: exn + string list) of
                    Inl e \<Rightarrow> [''CORRUPTED FILE GROUPS''] | Inr g \<Rightarrow> g),
                  state := WS_READY\<rparr>)
    \<and> find (is_job (JStr ''j1'')) (workflow_jobs ?s') = Some (job1\<lparr>job_state := JOB_SUCCESS\<rparr>)
    \<and> find (is_stats (JStr (user_id ws1))) (processing_stats ?s')
        = Some (stats1\<lparr>pages_succeed := pages_succeed stats1 + pages_amount ws1\<rparr>)"
    by (rule status_success_transition[where d = status_msg])
       (simp_all add: ex_defs is_defs)
  then show ?thesis
    by (simp add: ex_defs status_defs m_defs db_eqs set_workspace_def add_stats_def is_defs)
qed

section \<open>JobStatusWorker: a state that is not terminal\<close>

text \<open>
  Claim C10. A status message is handled: its job, the workspace of the job and the handle
  of the remote job are in the store, and the gateway reports a remote state that
  converts to a job state which differs from the stored one and is neither SUCCESS nor
  FAILED. Then the callback returns, no job, workspace, workflow or statistics record has
  changed, the trace has no write to a job or a workspace: the only write is the new
  remote state of the handle, when it has changed, and the message is acknowledged.
\<close>

theorem status_no_transition_frame:
  assumes up: "store_up s"
    and body: "body = Some d" "d ''job_id'' = Some (JStr j)"
    and job: "find (is_job (JStr j)) (workflow_jobs s) = Some wj"
    and ws: "find (is_workspace (JStr (job_workspace_id wj))) (workspaces s) = Some ws"
    and hpc: "find (is_hpc_slurm_job (JStr j)) (hpc_slurm_jobs s) = Some h"
    and poll: "check_slurm_job_state en (hpc_slurm_job_id h) = Inr new"
    and conv: "convert_from_slurm_job en new = Inr nst"
    and diff: "nst \<noteq> job_state wj"
    and nt: "nst \<noteq> JOB_SUCCESS" "nst \<noteq> JOB_FAILED"
  shows "fst (status_callback en tag body s) = Inr ()
    \<and> workflow_jobs (snd (status_callback en tag body s)) = workflow_jobs s
    \<and> workspaces (snd (status_callback en tag body s)) = workspaces s
    \<and> processing_stats (snd (status_callback en tag body s)) = processing_stats s
    \<and> workflows (snd (status_callback en tag body s)) = workflows s
    \<and> hpc_slurm_jobs (snd (status_callback en tag body s)) =
        (if hpc_slurm_job_state h \<noteq> new
         then update_first (is_hpc_slurm_job (JStr j)) (\<lambda>r. r\<lparr>hpc_slurm_job_state := new\<rparr>)
                (hpc_slurm_jobs s)
         else hpc_slurm_jobs s)
    \<and> trace (snd (status_callback en tag body s)) = trace s @
        (if hpc_slurm_job_state h \<noteq> new then [Db_update_hpc_slurm_job (JStr j) new] else []) @
        [Basic_ack tag]"
proof -
  have j: "job_id wj = j"
    using find_SomeD[OF job] by (simp add: is_job_def)
  show ?thesis
    using assms j
    by (simp add: status_defs m_defs db_eqs)
qed

text \<open>The theorem at a job that is QUEUED in the store while its remote job is pending:
  the handle takes the remote state, the job stays QUEUED.\<close>

theorem status_no_transition_frame_witness:
  "fst (status_callback (env_ok\<lparr>check_slurm_job_state := (\<lambda>i. Inr ''PENDING'')\<rparr>) 1 (Some status_msg)
          (status0\<lparr>workflow_jobs := [job1\<lparr>job_state := JOB_QUEUED\<rparr>]\<rparr>)) = Inr ()
   \<and> workflow_jobs (snd (status_callback (env_ok\<lparr>check_slurm_job_state := (\<lambda>i. Inr ''PENDING'')\<rparr>) 1
          (Some status_msg) (status0\<lparr>workflow_jobs := [job1\<lparr>job_state := JOB_QUEUED\<rparr>]\<rparr>)))
       = [job1\<lparr>job_state := JOB_QUEUED\<rparr>]
   \<and> workspaces (snd (status_callback (env_ok\<lparr>check_slurm_job_state := (\<lambda>i. Inr ''PENDING'')\<rparr>) 1
          (Some status_msg) (status0\<lparr>workflow_jobs := [job1\<lparr>job_state := JOB_QUEUED\<rparr>]\<rparr>)))
       = [ws1]
   \<and> trace (snd (status_callback (env_ok\<lparr>check_slurm_job_state := (\<lambda>i. Inr ''PENDING'')\<rparr>) 1
          (Some status_msg) (status0\<lparr>workflow_jobs := [job1\<lparr>job_state := JOB_QUEUED\<rparr>]\<rparr>)))
       = [Db_update_hpc_slurm_job (JStr ''j1'') ''PENDING'', Basic_ack 1]"
proof -
  let ?en = "env_ok\<lparr>check_slurm_job_state := (\<lambda>i. Inr ''PENDING'')\<rparr>"
  let ?s = "status0\<lparr>workflow_jobs := [job1\<lparr>job_state := JOB_QUEUED\<rparr>]\<rparr>"
  let ?s' = "snd (status_callback ?en 1 (Some status_msg) ?s)"
  have "fst (status_callback ?en 1 (Some status_msg) ?s) = Inr ()
    \<and> workflow_jobs ?s' = workflow_jobs ?s
    \<and> workspaces ?s' = workspaces ?s
    \<and> processing_stats ?s' = processing_stats ?s
    \<and> workflows ?s' = workflows ?s
    \<and> hpc_slurm_jobs ?s' =
        (if hpc_slurm_job_state hpc1 \<noteq> ''PENDING''
         then update_first (is_hpc_slurm_job (JStr ''j1''))
                (\<lambda>r. r\<lparr>hpc_slurm_job_state := ''PENDING''\<rparr>) (hpc_slurm_jobs ?s)
         else hpc_slurm_jobs ?s)
    \<and> trace ?s' = trace ?s @
        (if hpc_slurm_job_state hpc1 \<noteq> ''PENDING''
         then [Db_update_hpc_slurm_job (JStr ''j1'') ''PENDING''] else []) @
        [Basic_ack 1]"
    by (rule status_no_transition_frame[where d = status_msg and wj = "job1\<lparr>job_state := JOB_QUEUED\<rparr>"
          and ws = ws1 and nst = JOB_PENDING])
       (simp_all add: ex_defs is_defs)
  then show ?thesis
    by (simp add: ex_defs)
qed

section \<open>JobStatusWorker: a message delivered again\<close>

text \<open>
  Claim C5. A status message is handled for a job whose stored state is already the state
  the reported remote state converts to, as it is when the message of a job that has
  reached SUCCESS or FAILED is delivered again: both terminal branches are under the
  test that the stored job state differs from the converted one. Then the callback
  returns, the processing statistics, the workspaces with their file groups and the jobs
  are what they were, and the message is acknowledged.
\<close>

theorem status_redelivery_noop:
  assumes up: "store_up s"
    and body: "body = Some d" "d ''job_id'' = Some (JStr j)"
    and job: "find (is_job (JStr j)) (workflow_jobs s) = Some wj"
    and ws: "find (is_workspace (JStr (job_workspace_id wj))) (workspaces s) = Some ws"
    and hpc: "find (is_hpc_slurm_job (JStr j)) (hpc_slurm_jobs s) = Some h"
    and poll: "check_slurm_job_state en (hpc_slurm_job_id h) = Inr new"
    and conv: "convert_from_slurm_job en new = Inr (job_state wj)"
  shows "fst (status_callback en tag body s) = Inr ()
    \<and> processing_stats (snd (status_callback en tag body s)) = processing_stats s
    \<and> workspaces (snd (status_callback en tag body s)) = workspaces s
    \<and> workflow_jobs (snd (status_callback en tag body s)) = workflow_jobs s
    \<and> trace (snd (status_callback en tag body s)) = trace s @
        (if hpc_slurm_job_state h \<noteq> new then [Db_update_hpc_slurm_job (JStr j) new] else []) @
        [Basic_ack tag]"
proof -
  have j: "job_id wj = j"
    using find_SomeD[OF job] by (simp add: is_job_def)
  show ?thesis
    using assms j
    by (simp add: status_defs m_defs db_eqs)
qed

text \<open>The theorem at the second delivery of the status message of j1, in the state the
  first delivery has left: the 7 pages are not counted again, the file groups stay, and
  the only new effect is the acknowledgement.\<close>

theorem status_redelivery_noop_witness:
  "fst (status_callback env_ok 2 (Some status_msg) status_after) = Inr ()
   \<and> processing_stats (snd (status_callback env_ok 2 (Some status_msg) status_after))
       = [stats1\<lparr>pages_succeed := 7\<rparr>]
   \<and> processing_stats status_after = [stats1\<lparr>pages_succeed := 7\<rparr>]
   \<and> map file_groups (workspaces (snd (status_callback env_ok 2 (Some status_msg) status_after)))
       = [[''OCR-D-IMG'', ''OCR-D-OCR'']]
   \<and> trace (snd (status_callback env_ok 2 (Some status_msg) status_after))
       = trace status_after @ [Basic_ack 2]"
proof -
  let ?s' = "snd (status_callback env_ok 2 (Some status_msg) status_after)"
  have "fst (status_callback env_ok 2 (Some status_msg) status_after) = Inr ()
    \<and> processing_stats ?s' = processing_stats status_after
    \<and> workspaces ?s' = workspaces status_after
    \<and> workflow_jobs ?s' = workflow_jobs status_after
    \<and> trace ?s' = trace status_after @
        (if hpc_slurm_job_state (hpc1\<lparr>hpc_slurm_job_state := ''COMPLETED''\<rparr>) \<noteq> ''COMPLETED''
         then [Db_update_hpc_slurm_job (JStr ''j1'') ''COMPLETED''] else []) @
        [Basic_ack 2]"
    by (rule status_redelivery_noop[where d = status_msg and wj = "job1\<lparr>job_state := JOB_SUCCESS\<rparr>"
          and ws = "ws1\<lparr>file_groups := [''OCR-D-IMG'', ''OCR-D-OCR''], state := WS_READY\<rparr>"])
       (simp_all add: status_after_eq ex_defs is_defs)
  then show ?thesis
    by (simp add: status_after_eq ex_defs)
qed

section \<open>A terminal job and its workspace\<close>

text \<open>
  Claim C2, as stated, fails on the decode-error path of the submit worker: the message
  for the queued job j1 lacks the field \<^verbatim>\<open>cpus\<close>; the callback returns, the job is
  FAILED and its workspace is still QUEUED, since \<^verbatim>\<open>__handle_message_failure\<close> is
  called without \<^verbatim>\<open>set_ws_ready\<close> there.
\<close>

theorem terminal_job_ready_workspace_counterexample:
  "fst (submit_callback env_ok 1 (Some submit_msg_no_cpus) submit0) = Inr ()
   \<and> map job_state (workflow_jobs (snd (submit_callback env_ok 1 (Some submit_msg_no_cpus) submit0)))
       = [JOB_FAILED]
   \<and> map state (workspaces (snd (submit_callback env_ok 1 (Some submit_msg_no_cpus) submit0)))
       = [WS_QUEUED]
   \<and> WS_QUEUED \<noteq> WS_READY"
  by (simp add: ex_defs submit_defs m_defs db_eqs py_int_def is_defs set_workspace_def)

text \<open>
  Claim C2, amended. Status worker: when the job of a status message has, after the
  callback (however it ends), a state SUCCESS or FAILED that is not the state it had
  before, the workspace of the job is READY. Submit worker: when a message decodes (all
  nine fields are there, \<^verbatim>\<open>cpus\<close> and \<^verbatim>\<open>ram\<close> convert to integers), the callback
  returns and the job of the message is SUCCESS or FAILED afterwards, the workspace of
  the message is READY.
\<close>

theorem terminal_job_ready_workspace:
  "(body = Some d \<and> d ''job_id'' = Some (JStr j)
     \<and> find (is_job (JStr j)) (workflow_jobs s) = Some wj
     \<and> find (is_job (JStr j)) (workflow_jobs (snd (status_callback en tag body s))) = Some wj'
     \<and> (job_state wj' = JOB_SUCCESS \<or> job_state wj' = JOB_FAILED)
     \<and> job_state wj' \<noteq> job_state wj
    \<longrightarrow> map_option state (find (is_workspace (JStr (job_workspace_id wj)))
          (workspaces (snd (status_callback en tag body s)))) = Some WS_READY)
   \<and>
   (sbody = Some sd
     \<and> sd ''user_id'' = Some u \<and> sd ''workspace_id'' = Some wv
     \<and> sd ''workflow_id'' = Some fv \<and> sd ''job_id'' = Some jv
     \<and> sd ''input_file_grp'' = Some ifg \<and> sd ''remove_file_grps'' = Some rfg
     \<and> sd ''partition'' = Some part \<and> sd ''cpus'' = Some c \<and> sd ''ram'' = Some r
     \<and> py_int en c = Inr cpus \<and> py_int en r = Inr ram
     \<and> fst (submit_callback en stag sbody ss) = Inr ()
     \<and> find (is_job jv) (workflow_jobs (snd (submit_callback en stag sbody ss))) = Some sj'
     \<and> (job_state sj' = JOB_SUCCESS \<or> job_state sj' = JOB_FAILED)
    \<longrightarrow> map_option state (find (is_workspace wv)
          (workspaces (snd (submit_callback en stag sbody ss)))) = Some WS_READY)"
proof (intro conjI impI)
  assume "body = Some d \<and> d ''job_id'' = Some (JStr j)
     \<and> find (is_job (JStr j)) (workflow_jobs s) = Some wj
     \<and> find (is_job (JStr j)) (workflow_jobs (snd (status_callback en tag body s))) = Some wj'
     \<and> (job_state wj' = JOB_SUCCESS \<or> job_state wj' = JOB_FAILED)
     \<and> job_state wj' \<noteq> job_state wj"
  then show "map_option state (find (is_workspace (JStr (job_workspace_id wj)))
          (workspaces (snd (status_callback en tag body s)))) = Some WS_READY"
    using status_terminal_ready[of body d j s wj en tag wj'] by blast
next
  assume "sbody = Some sd
     \<and> sd ''user_id'' = Some u \<and> sd ''workspace_id'' = Some wv
     \<and> sd ''workflow_id'' = Some fv \<and> sd ''job_id'' = Some jv
     \<and> sd ''input_file_grp'' = Some ifg \<and> sd ''remove_file_grps'' = Some rfg
     \<and> sd ''partition'' = Some part \<and> sd ''cpus'' = Some c \<and> sd ''ram'' = Some r
     \<and> py_int en c = Inr cpus \<and> py_int en r = Inr ram
     \<and> fst (submit_callback en stag sbody ss) = Inr ()
     \<and> find (is_job jv) (workflow_jobs (snd (submit_callback en stag sbody ss))) = Some sj'
     \<and> (job_state sj' = JOB_SUCCESS \<or> job_state sj' = JOB_FAILED)"
  then show "map_option state (find (is_workspace wv)
          (workspaces (snd (submit_callback en stag sbody ss)))) = Some WS_READY"
    using submit_terminal_ready[of sbody sd u wv fv jv ifg rfg part c r en cpus ram stag ss sj']
    by blast
qed

text \<open>The theorem at the status message of the job j1 whose remote job has failed, and at
  the submit message of the queued job j1 whose transfer to the HPC fails: both leave
  the job FAILED and the workspace READY.\<close>

theorem terminal_job_ready_workspace_witness:
  "map_option state (find (is_workspace (JStr ''w1''))
      (workspaces (snd (status_callback env_failed 1 (Some status_msg) status0)))) = Some WS_READY
   \<and> map_option state (find (is_workspace (JStr ''w1''))
      (workspaces (snd (submit_callback env_put_fails 1 (Some submit_msg) submit0)))) = Some WS_READY"
proof -
  have st: "find (is_job (JStr ''j1''))
      (workflow_jobs (snd (status_callback env_failed 1 (Some status_msg) status0)))
      = Some (job1\<lparr>job_state := JOB_FAILED\<rparr>)"
    by (simp add: ex_defs status_defs m_defs db_eqs set_workspace_def add_stats_def is_defs)
  have su: "fst (submit_callback env_put_fails 1 (Some submit_msg) submit0) = Inr ()
    \<and> find (is_job (JStr ''j1''))
      (workflow_jobs (snd (submit_callback env_put_fails 1 (Some submit_msg) submit0)))
      = Some (job1\<lparr>job_state := JOB_FAILED\<rparr>)"
    by (simp add: ex_defs submit_defs m_defs db_eqs py_int_def set_workspace_def is_defs)
  have pre: "job_workspace_id job1 = ''w1''" "job_state job1 = JOB_PENDING"
    "find (is_job (JStr ''j1'')) (workflow_jobs status0) = Some job1"
    by (simp_all add: ex_defs is_defs)
  have msg: "status_msg ''job_id'' = Some (JStr ''j1'')"
    "submit_msg ''user_id'' = Some (JStr ''u1'')" "submit_msg ''workspace_id'' = Some (JStr ''w1'')"
    "submit_msg ''workflow_id'' = Some (JStr ''f1'')" "submit_msg ''job_id'' = Some (JStr ''j1'')"
    "submit_msg ''input_file_grp'' = Some (JStr ''OCR-D-IMG'')"
    "submit_msg ''remove_file_grps'' = Some (JStr [])"
    "submit_msg ''partition'' = Some (JStr ''standard96'')"
    "submit_msg ''cpus'' = Some (JInt 4)" "submit_msg ''ram'' = Some (JInt 16)"
    "py_int env_put_fails (JInt 4) = Inr 4" "py_int env_put_fails (JInt 16) = Inr 16"
    by (simp_all add: ex_defs py_int_def)
  have a: "map_option state (find (is_workspace (JStr (job_workspace_id job1)))
      (workspaces (snd (status_callback env_failed 1 (Some status_msg) status0)))) = Some WS_READY"
    by (rule terminal_job_ready_workspace[where body = "Some status_msg" and d = status_msg
        and j = "''j1''" and s = status0 and wj = job1 and en = env_failed and tag = 1
        and wj' = "job1\<lparr>job_state := JOB_FAILED\<rparr>", THEN conjunct1, THEN mp])
       (insert st pre msg, simp)
  have b: "map_option state (find (is_workspace (JStr ''w1''))
      (workspaces (snd (submit_callback env_put_fails 1 (Some submit_msg) submit0)))) = Some WS_READY"
    by (rule terminal_job_ready_workspace[where sbody = "Some submit_msg" and sd = submit_msg
        and u = "JStr ''u1''" and wv = "JStr ''w1''" and fv = "JStr ''f1''" and jv = "JStr ''j1''"
        and ifg = "JStr ''OCR-D-IMG''" and rfg = "JStr []" and part = "JStr ''standard96''"
        and c = "JInt 4" and r = "JInt 16" and en = env_put_fails and cpus = 4 and ram = 16
        and stag = 1 and ss = submit0 and sj' = "job1\<lparr>job_state := JOB_FAILED\<rparr>",
        THEN conjunct2, THEN mp])
       (insert su msg, simp)
  show ?thesis
    using a b pre by simp
qed

section \<open>JobSubmitWorker: a successful submission\<close>

text \<open>
  Claim C8, as stated, fails when the message of a job that has been submitted is
  handled once more: \<^verbatim>\<open>prepare_and_trigger_slurm_job\<close> creates a handle whatever the store
  holds. The message for the job j1 is handled a second time, in the state the first
  handling has left; the callback reaches the success path again (it ends with
  \<^verbatim>\<open>basic_ack\<close>), and the store holds two handles for j1, not one.
\<close>

theorem submit_success_counterexample:
  "fst (submit_callback env_ok 2 (Some submit_msg) submit_after) = Inr ()
   \<and> map hpc_slurm_job_id (filter (is_hpc_slurm_job (JStr ''j1''))
        (hpc_slurm_jobs (snd (submit_callback env_ok 2 (Some submit_msg) submit_after))))
       = [''4711'', ''4711'']
   \<and> length (filter (is_hpc_slurm_job (JStr ''j1''))
        (hpc_slurm_jobs (snd (submit_callback env_ok 2 (Some submit_msg) submit_after)))) = 2
   \<and> last (trace (snd (submit_callback env_ok 2 (Some submit_msg) submit_after))) = Basic_ack 2"
  by (simp add: submit_after_def ex_defs submit_defs m_defs db_eqs create_hpc_slurm_job_eq
      py_int_def set_workspace_def is_defs)

text \<open>
  Claim C8, amended. A submission message decodes, the store is reachable and holds the
  workflow, the workspace and the job of the message, the transfer of the workspace to
  the HPC succeeds and the gateway answers the submission with the identifier \<open>sid\<close>.
  Then the callback returns; exactly one handle is added to the store, for the job of
  the message and with the remote identifier \<open>sid\<close>, and the handles the store held
  before are kept; the job and the workspace are PENDING; and the acknowledgement is the
  last effect, after every write to the store.
\<close>

theorem submit_success:
  assumes up: "store_up s"
    and body: "body = Some d"
      "d ''user_id'' = Some u" "d ''workspace_id'' = Some (JStr w)"
      "d ''workflow_id'' = Some (JStr f)" "d ''job_id'' = Some (JStr j)"
      "d ''input_file_grp'' = Some ifg" "d ''remove_file_grps'' = Some rfg"
      "d ''partition'' = Some part" "d ''cpus'' = Some c" "d ''ram'' = Some r"
    and ints: "py_int en c = Inr cpus" "py_int en r = Inr ram"
    and wfl: "find (is_workflow (JStr f)) (workflows s) = Some wfl"
    and ws: "find (is_workspace (JStr w)) (workspaces s) = Some ws"
    and job: "find (is_job (JStr j)) (workflow_jobs s) = Some wj"
    and put: "pack_and_put_slurm_workspace en (workspace_dir ws) (JStr j) (workflow_script_path wfl) = None"
    and trig: "trigger_slurm_job en
        \<lparr>ta_workflow_job_id = JStr j,
         ta_nextflow_script_path = workflow_script_path wfl,
         ta_workspace_id = JStr w,
         ta_mets_basename = (if mets_basename ws = [] then ''mets.xml'' else mets_basename ws),
         ta_input_file_grp = ifg,
         ta_nf_process_forks = cpus,
         ta_ws_pages_amount = pages_amount ws,
         ta_use_mets_server = uses_mets_server wfl,
         ta_nf_executable_steps = executable_steps wfl,
         ta_file_groups_to_remove = rfg,
         ta_cpus = cpus,
         ta_ram = ram,
         ta_job_deadline_time =
           (if test_sbatch s then HPC_JOB_DEADLINE_TIME_TEST en else HPC_JOB_DEADLINE_TIME_REGULAR en),
         ta_partition = part,
         ta_qos = (if test_sbatch s then HPC_JOB_QOS_SHORT en else HPC_JOB_QOS_DEFAULT en)\<rparr> = Inr sid"
  shows "fst (submit_callback en tag body s) = Inr ()
    \<and> hpc_slurm_jobs (snd (submit_callback en tag body s)) = hpc_slurm_jobs s @
        [\<lparr>hpc_user_id = u, workflow_job_id = JStr j, hpc_slurm_job_id = sid,
          hpc_slurm_job_state = hpc_slurm_job_state_default en,
          hpc_batch_script_path = HPC_BATCH_SUBMIT_WORKFLOW_JOB en,
          hpc_slurm_workspace_path = py_join (slurm_workspaces_dir en) j\<rparr>]
    \<and> filter (is_hpc_slurm_job (JStr j)) (hpc_slurm_jobs (snd (submit_callback en tag body s))) =
        filter (is_hpc_slurm_job (JStr j)) (hpc_slurm_jobs s) @
        [\<lparr>hpc_user_id = u, workflow_job_id = JStr j, hpc_slurm_job_id = sid,
          hpc_slurm_job_state = hpc_slurm_job_state_default en,
          hpc_batch_script_path = HPC_BATCH_SUBMIT_WORKFLOW_JOB en,
          hpc_slurm_workspace_path = py_join (slurm_workspaces_dir en) j\<rparr>]
    \<and> find (is_job (JStr j)) (workflow_jobs (snd (submit_callback en tag body s)))
        = Some (wj\<lparr>job_state := JOB_PENDING\<rparr>)
    \<and> find (is_workspace (JStr w)) (workspaces (snd (submit_callback en tag body s)))
        = Some (ws\<lparr>state := WS_PENDING\<rparr>)
    \<and> trace (snd (submit_callback en tag body s)) = trace s @
        [Db_update_workspace w WS_TRANSFERRING_TO_HPC None,
         Db_update_workflow_job j JOB_TRANSFERRING_TO_HPC,
         Hpc_pack_and_put_slurm_workspace (workspace_dir ws) (JStr j) (workflow_script_path wfl),
         Hpc_trigger_slurm_job (JStr j) sid,
         Db_create_hpc_slurm_job (JStr j) sid,
         Db_update_workflow_job j JOB_PENDING,
         Db_update_workspace w WS_PENDING None,
         Basic_ack tag]"
proof -
  have j: "job_id wj = j"
    using find_SomeD[OF job] by (simp add: is_job_def)
  have w: "workspace_id ws = w"
    using find_SomeD[OF ws] by (simp add: is_workspace_def)
  show ?thesis
    using assms j w
    by (simp add: submit_defs m_defs db_eqs create_hpc_slurm_job_eq set_workspace_def
        is_hpc_slurm_job_def)
qed

text \<open>The theorem at the message for the queued job j1, which has no handle yet: one
  handle, with the identifier 4711 the gateway returned.\<close>

theorem submit_success_witness:
  "fst (submit_callback env_ok 1 (Some submit_msg) submit0) = Inr ()
   \<and> map hpc_slurm_job_id (filter (is_hpc_slurm_job (JStr ''j1''))
        (hpc_slurm_jobs (snd (submit_callback env_ok 1 (Some submit_msg) submit0)))) = [''4711'']
   \<and> map job_state (workflow_jobs (snd (submit_callback env_ok 1 (Some submit_msg) submit0)))
       = [JOB_PENDING]
   \<and> map state (workspaces (snd (submit_callback env_ok 1 (Some submit_msg) submit0)))
       = [WS_PENDING]
   \<and> last (trace (snd (submit_callback env_ok 1 (Some submit_msg) submit0))) = Basic_ack 1"
proof -
  let ?s' = "snd (submit_callback env_ok 1 (Some submit_msg) submit0)"
  let ?h = "\<lparr>hpc_user_id = JStr ''u1'', workflow_job_id = JStr ''j1'', hpc_slurm_job_id = ''4711'',
          hpc_slurm_job_state = hpc_slurm_job_state_default env_ok,
          hpc_batch_script_path = HPC_BATCH_SUBMIT_WORKFLOW_JOB env_ok,
          hpc_slurm_workspace_path = py_join (slurm_workspaces_dir env_ok) ''j1''\<rparr>"
  have "fst (submit_callback env_ok 1 (Some submit_msg) submit0) = Inr ()
    \<and> hpc_slurm_jobs ?s' = hpc_slurm_jobs submit0 @ [?h]
    \<and> filter (is_hpc_slurm_job (JStr ''j1'')) (hpc_slurm_jobs ?s') =
        filter (is_hpc_slurm_job (JStr ''j1'')) (hpc_slurm_jobs submit0) @ [?h]
    \<and> find (is_job (JStr ''j1'')) (workflow_jobs ?s')
        = Some (job1\<lparr>job_state := JOB_QUEUED, job_state := JOB_PENDING\<rparr>)
    \<and> find (is_workspace (JStr ''w1'')) (workspaces ?s')
        = Some (ws1\<lparr>state := WS_QUEUED, state := WS_PENDING\<rparr>)
    \<and> trace ?s' = trace submit0 @
        [Db_update_workspace ''w1'' WS_TRANSFERRING_TO_HPC None,
         Db_update_workflow_job ''j1'' JOB_TRANSFERRING_TO_HPC,
         Hpc_pack_and_put_slurm_workspace (workspace_dir (ws1\<lparr>state := WS_QUEUED\<rparr>)) (JStr ''j1'')
           (workflow_script_path wf1),
         Hpc_trigger_slurm_job (JStr ''j1'') ''4711'',
         Db_create_hpc_slurm_job (JStr ''j1'') ''4711'',
         Db_update_workflow_job ''j1'' JOB_PENDING,
         Db_update_workspace ''w1'' WS_PENDING None,
         Basic_ack 1]"
    by (rule submit_success[where d = submit_msg and f = "''f1''" and ifg = "JStr ''OCR-D-IMG''"
          and rfg = "JStr []" and part = "JStr ''standard96''" and c = "JInt 4" and r = "JInt 16"
          and cpus = 4 and ram = 16])
       (simp_all add: ex_defs is_defs py_int_def)
  then show ?thesis
    by (simp add: ex_defs submit_defs m_defs db_eqs create_hpc_slurm_job_eq py_int_def
        set_workspace_def is_defs)
qed

section \<open>A read of the store fails\<close>

text \<open>
  Claim C4, as stated, fails in the status worker: the handle of the remote job of j1 is
  missing, the callback acknowledges the message and returns, and the job is PENDING as
  before, not FAILED: \<^verbatim>\<open>JobStatusWorker.__handle_message_failure\<close> writes nothing to the
  store.
\<close>

theorem store_read_failure_counterexample:
  "fst (status_callback env_ok 1 (Some status_msg) (status0\<lparr>hpc_slurm_jobs := []\<rparr>)) = Inr ()
   \<and> map job_state (workflow_jobs (snd (status_callback env_ok 1 (Some status_msg)
        (status0\<lparr>hpc_slurm_jobs := []\<rparr>)))) = [JOB_PENDING]
   \<and> trace (snd (status_callback env_ok 1 (Some status_msg) (status0\<lparr>hpc_slurm_jobs := []\<rparr>)))
       = [Ack_message (Some 1)]
   \<and> JOB_PENDING \<noteq> JOB_FAILED"
  by (simp add: ex_defs status_defs m_defs db_eqs is_defs)

text \<open>
  Claim C4, amended. Submit worker: the store is reachable, the message decodes, its
  workflow is missing and its job and workspace are in the store; then the callback
  returns, the job is FAILED, the workspace is READY, and the effects are the two writes
  and one acknowledgement. Status worker: the message names a job and a read fails (the
  store is unreachable, or the job, its workspace or its handle is missing); then the
  callback returns, its only effect is one acknowledgement, and no record of the store
  has changed.
\<close>

theorem store_read_failure:
  "(store_up ss \<and> sbody = Some sd
     \<and> sd ''user_id'' = Some u \<and> sd ''workspace_id'' = Some (JStr w)
     \<and> sd ''workflow_id'' = Some fv \<and> sd ''job_id'' = Some (JStr j)
     \<and> sd ''input_file_grp'' = Some ifg \<and> sd ''remove_file_grps'' = Some rfg
     \<and> sd ''partition'' = Some part \<and> sd ''cpus'' = Some c \<and> sd ''ram'' = Some r
     \<and> py_int en c = Inr cpus \<and> py_int en r = Inr ram
     \<and> find (is_workflow fv) (workflows ss) = None
     \<and> find (is_job (JStr j)) (workflow_jobs ss) = Some sj
     \<and> find (is_workspace (JStr w)) (workspaces ss) = Some sw
    \<longrightarrow> fst (submit_callback en stag sbody ss) = Inr ()
      \<and> find (is_job (JStr j)) (workflow_jobs (snd (submit_callback en stag sbody ss)))
          = Some (sj\<lparr>job_state := JOB_FAILED\<rparr>)
      \<and> find (is_workspace (JStr w)) (workspaces (snd (submit_callback en stag sbody ss)))
          = Some (sw\<lparr>state := WS_READY\<rparr>)
      \<and> trace (snd (submit_callback en stag sbody ss)) = trace ss @
          [Db_update_workflow_job j JOB_FAILED, Db_update_workspace w WS_READY None,
           Ack_message (Some stag)])
   \<and>
   (body = Some d \<and> d ''job_id'' = Some jv \<and> status_read_failure jv s
    \<longrightarrow> fst (status_callback en tag body s) = Inr ()
      \<and> trace (snd (status_callback en tag body s)) = trace s @ [Ack_message (Some tag)]
      \<and> workflow_jobs (snd (status_callback en tag body s)) = workflow_jobs s
      \<and> workspaces (snd (status_callback en tag body s)) = workspaces s
      \<and> hpc_slurm_jobs (snd (status_callback en tag body s)) = hpc_slurm_jobs s
      \<and> processing_stats (snd (status_callback en tag body s)) = processing_stats s)"
proof (rule conjI; rule impI)
  assume "store_up ss \<and> sbody = Some sd
     \<and> sd ''user_id'' = Some u \<and> sd ''workspace_id'' = Some (JStr w)
     \<and> sd ''workflow_id'' = Some fv \<and> sd ''job_id'' = Some (JStr j)
     \<and> sd ''input_file_grp'' = Some ifg \<and> sd ''remove_file_grps'' = Some rfg
     \<and> sd ''partition'' = Some part \<and> sd ''cpus'' = Some c \<and> sd ''ram'' = Some r
     \<and> py_int en c = Inr cpus \<and> py_int en r = Inr ram
     \<and> find (is_workflow fv) (workflows ss) = None
     \<and> find (is_job (JStr j)) (workflow_jobs ss) = Some sj
     \<and> find (is_workspace (JStr w)) (workspaces ss) = Some sw"
  then show "fst (submit_callback en stag sbody ss) = Inr ()
      \<and> find (is_job (JStr j)) (workflow_jobs (snd (submit_callback en stag sbody ss)))
          = Some (sj\<lparr>job_state := JOB_FAILED\<rparr>)
      \<and> find (is_workspace (JStr w)) (workspaces (snd (submit_callback en stag sbody ss)))
          = Some (sw\<lparr>state := WS_READY\<rparr>)
      \<and> trace (snd (submit_callback en stag sbody ss)) = trace ss @
          [Db_update_workflow_job j JOB_FAILED, Db_update_workspace w WS_READY None,
           Ack_message (Some stag)]"
    using submit_workflow_missing[of ss sbody sd u w fv j ifg rfg part c r en cpus ram sj sw stag]
    by simp
next
  assume "body = Some d \<and> d ''job_id'' = Some jv \<and> status_read_failure jv s"
  then show "fst (status_callback en tag body s) = Inr ()
      \<and> trace (snd (status_callback en tag body s)) = trace s @ [Ack_message (Some tag)]
      \<and> workflow_jobs (snd (status_callback en tag body s)) = workflow_jobs s
      \<and> workspaces (snd (status_callback en tag body s)) = workspaces s
      \<and> hpc_slurm_jobs (snd (status_callback en tag body s)) = hpc_slurm_jobs s
      \<and> processing_stats (snd (status_callback en tag body s)) = processing_stats s"
    using status_read_failure_ack[of body d jv s en tag] by simp
qed

text \<open>The theorem at the submit message of j1 when the workflow f1 is not in the store,
  and at the status message of j1 when the handle of its remote job is not in the
  store.\<close>

theorem store_read_failure_witness:
  "(fst (submit_callback env_ok 1 (Some submit_msg) (submit0\<lparr>workflows := []\<rparr>)) = Inr ()
     \<and> find (is_job (JStr ''j1''))
         (workflow_jobs (snd (submit_callback env_ok 1 (Some submit_msg) (submit0\<lparr>workflows := []\<rparr>))))
        = Some (job1\<lparr>job_state := JOB_FAILED\<rparr>)
     \<and> find (is_workspace (JStr ''w1''))
         (workspaces (snd (submit_callback env_ok 1 (Some submit_msg) (submit0\<lparr>workflows := []\<rparr>))))
        = Some (ws1\<lparr>state := WS_READY\<rparr>)
     \<and> trace (snd (submit_callback env_ok 1 (Some submit_msg) (submit0\<lparr>workflows := []\<rparr>)))
        = [Db_update_workflow_job ''j1'' JOB_FAILED, Db_update_workspace ''w1'' WS_READY None,
           Ack_message (Some 1)])
   \<and> (fst (status_callback env_ok 1 (Some status_msg) (status0\<lparr>hpc_slurm_jobs := []\<rparr>)) = Inr ()
     \<and> trace (snd (status_callback env_ok 1 (Some status_msg) (status0\<lparr>hpc_slurm_jobs := []\<rparr>)))
        = [Ack_message (Some 1)]
     \<and> workflow_jobs (snd (status_callback env_ok 1 (Some status_msg) (status0\<lparr>hpc_slurm_jobs := []\<rparr>)))
        = [job1])"
proof -
  let ?ss = "submit0\<lparr>workflows := []\<rparr>"
  let ?s = "status0\<lparr>hpc_slurm_jobs := []\<rparr>"
  have a: "fst (submit_callback env_ok 1 (Some submit_msg) ?ss) = Inr ()
      \<and> find (is_job (JStr ''j1'')) (workflow_jobs (snd (submit_callback env_ok 1 (Some submit_msg) ?ss)))
          = Some (job1\<lparr>job_state := JOB_QUEUED, job_state := JOB_FAILED\<rparr>)
      \<and> find (is_workspace (JStr ''w1'')) (workspaces (snd (submit_callback env_ok 1 (Some submit_msg) ?ss)))
          = Some (ws1\<lparr>state := WS_QUEUED, state := WS_READY\<rparr>)
      \<and> trace (snd (submit_callback env_ok 1 (Some submit_msg) ?ss)) = trace ?ss @
          [Db_update_workflow_job ''j1'' JOB_FAILED, Db_update_workspace ''w1'' WS_READY None,
           Ack_message (Some 1)]"
    by (rule store_read_failure[where ss = ?ss and sbody = "Some submit_msg" and sd = submit_msg
        and u = "JStr ''u1''" and fv = "JStr ''f1''" and ifg = "JStr ''OCR-D-IMG''"
        and rfg = "JStr []" and part = "JStr ''standard96''" and c = "JInt 4" and r = "JInt 16"
        and en = env_ok and cpus = 4 and ram = 16, THEN conjunct1, THEN mp])
       (simp add: ex_defs is_defs py_int_def)
  have b: "fst (status_callback env_ok 1 (Some status_msg) ?s) = Inr ()
      \<and> trace (snd (status_callback env_ok 1 (Some status_msg) ?s)) = trace ?s @ [Ack_message (Some 1)]
      \<and> workflow_jobs (snd (status_callback env_ok 1 (Some status_msg) ?s)) = workflow_jobs ?s
      \<and> workspaces (snd (status_callback env_ok 1 (Some status_msg) ?s)) = workspaces ?s
      \<and> hpc_slurm_jobs (snd (status_callback env_ok 1 (Some status_msg) ?s)) = hpc_slurm_jobs ?s
      \<and> processing_stats (snd (status_callback env_ok 1 (Some status_msg) ?s)) = processing_stats ?s"
    by (rule store_read_failure[where body = "Some status_msg" and d = status_msg
        and jv = "JStr ''j1''" and s = ?s, THEN conjunct2, THEN mp])
       (simp add: ex_defs is_defs status_read_failure_def)
  show ?thesis
    using a b by (simp add: ex_defs)
qed

section \<open>Where the workers leave their documented behaviour\<close>

text \<open>
  Claim C1 at a failing input. The status message of the job j1 is handled, its remote
  job has completed, and the download of the log raises an error that is not a
  \<^verbatim>\<open>ValueError\<close>. The third \<^verbatim>\<open>try\<close> of \<^verbatim>\<open>JobStatusWorker.__callback\<close> catches
  \<^verbatim>\<open>ValueError\<close> only: the error leaves the callback, and the message has not been
  acknowledged (the only effect so far is the new remote state of the handle).
\<close>

theorem status_callback_raises:
  "fst (status_callback env_log_fails 1 (Some status_msg) status0) = Inl OtherException
   \<and> trace (snd (status_callback env_log_fails 1 (Some status_msg) status0))
       = [Db_update_hpc_slurm_job (JStr ''j1'') ''COMPLETED'']
   \<and> has_consumed_message (snd (status_callback env_log_fails 1 (Some status_msg) status0))"
  by (simp add: ex_defs status_defs m_defs db_eqs is_defs)

text \<open>
  Claim C3 at a failing input. The submit message of the queued job j1 is handled and
  the transfer of the workspace to the HPC fails, after staging began. The job is marked
  FAILED, the workspace is set READY and the message is acknowledged, but
  \<open>pages_failed\<close> of the user is not increased by the 7 pages of the workspace: the
  first handler of \<^verbatim>\<open>prepare_and_trigger_slurm_job\<close> raises without the increase that the
  second one, for a failed submission, makes.
\<close>

theorem submit_transfer_failure_no_stats:
  "fst (submit_callback env_put_fails 1 (Some submit_msg) submit0) = Inr ()
   \<and> map job_state (workflow_jobs (snd (submit_callback env_put_fails 1 (Some submit_msg) submit0)))
       = [JOB_FAILED]
   \<and> map state (workspaces (snd (submit_callback env_put_fails 1 (Some submit_msg) submit0)))
       = [WS_READY]
   \<and> map pages_amount (workspaces (snd (submit_callback env_put_fails 1 (Some submit_msg) submit0)))
       = [7]
   \<and> map pages_failed (processing_stats (snd (submit_callback env_put_fails 1 (Some submit_msg) submit0)))
       = [0]
   \<and> trace (snd (submit_callback env_put_fails 1 (Some submit_msg) submit0))
       = [Db_update_workspace ''w1'' WS_TRANSFERRING_TO_HPC None,
          Db_update_workflow_job ''j1'' JOB_TRANSFERRING_TO_HPC,
          Db_update_workflow_job ''j1'' JOB_FAILED,
          Db_update_workspace ''w1'' WS_READY None,
          Ack_message (Some 1)]"
  by (simp add: ex_defs submit_defs m_defs db_eqs is_defs py_int_def set_workspace_def)

text \<open>
  Claim C9 at a failing input. The submit worker is interrupted while the workspace of
  the job j1 is transferred to the HPC: job and workspace are in the state of
  transferring to the HPC and the message with delivery tag 1 is in flight. The signal
  handler marks the job FAILED, acknowledges the message, disconnects and exits, but
  the workspace is not released: it stays in its transferring state and there is no
  write to a workspace, since \<^verbatim>\<open>signal_handler\<close> calls
  \<^verbatim>\<open>__handle_message_failure(interruption=True)\<close> without \<^verbatim>\<open>set_ws_ready=True\<close>, which
  the failure paths of the callback after the decoding pass.
\<close>

theorem submit_signal_keeps_workspace:
  "fst (submit_signal_handler submit_inflight) = Inr ()
   \<and> map job_state (workflow_jobs (snd (submit_signal_handler submit_inflight))) = [JOB_FAILED]
   \<and> map state (workspaces (snd (submit_signal_handler submit_inflight)))
       = [WS_TRANSFERRING_TO_HPC]
   \<and> WS_TRANSFERRING_TO_HPC \<noteq> WS_READY
   \<and> trace (snd (submit_signal_handler submit_inflight))
       = [Db_update_workspace ''w1'' WS_TRANSFERRING_TO_HPC None,
          Db_update_workflow_job ''j1'' JOB_TRANSFERRING_TO_HPC,
          Db_update_workflow_job ''j1'' JOB_FAILED,
          Ack_message (Some 1), Disconnect, Exit 0]"
  by (simp add: ex_defs submit_defs m_defs db_eqs is_defs)

end
